theory Spec2Isabelle
  imports Main "HOL-Library.Sublist"
begin

section \<open>Python values\<close>

text \<open>
  A Python \<open>str\<close> is represented by its UTF-8 encoding, a list of 8-bit characters; a
  \<open>bytes\<close> object is a list of 8-bit characters as well. So \<open>s.encode('utf-8')\<close> is
  the identity and \<open>b.decode('utf-8')\<close> succeeds exactly on well-formed UTF-8.  All
  delimiters the code looks for (\<open>$\<close>, \<open>{\<close>, \<open>}\<close>, \<open>/\<close>, identifier characters) are
  ASCII and never occur inside a multi-byte sequence.
\<close>

type_synonym bytes = "char list"

text \<open>The values a caller can supply in \<open>kwargs\<close> (JSON scalars and uploaded files).\<close>

datatype pyval = PNone | PStr string | PBytes bytes | PInt int | PBool bool

datatype error =
    ValueError string
  | AttributeError
  | TypeError
  | KeyError string
  | FileNotFoundError string
  | NotADirectoryError string
  | IsADirectoryError string
  | FileExistsError string
  | UnicodeDecodeError
  | SpawnError

text \<open>Python truth value, as used by \<open>x or y\<close> and \<open>if x\<close>.\<close>

fun truthy :: "pyval \<Rightarrow> bool" where
  "truthy PNone = False"
| "truthy (PStr s) = (s \<noteq> [])"
| "truthy (PBytes b) = (b \<noteq> [])"
| "truthy (PInt i) = (i \<noteq> 0)"
| "truthy (PBool b) = b"

definition digit_char :: "nat \<Rightarrow> char" where
  "digit_char d = char_of (of_char (CHR ''0'') + d :: nat)"

fun dec_nat :: "nat \<Rightarrow> string" where
  "dec_nat n = (if n < 10 then [digit_char n] else dec_nat (n div 10) @ [digit_char (n mod 10)])"

definition dec_int :: "int \<Rightarrow> string" where
  "dec_int i = (if i < 0 then CHR ''-'' # dec_nat (nat (- i)) else dec_nat (nat i))"

definition hex_char :: "nat \<Rightarrow> char" where
  "hex_char d = (if d < 10 then digit_char d else char_of (of_char (CHR ''a'') + (d - 10) :: nat))"

text \<open>\<open>repr\<close> of a bytes object, which is what \<open>str(b)\<close> returns.\<close>

definition bytes_quote :: "bytes \<Rightarrow> char" where
  "bytes_quote b =
     (if CHR 0x27 \<in> set b \<and> CHR 0x22 \<notin> set b then CHR 0x22 else CHR 0x27)"

definition repr_byte :: "char \<Rightarrow> char \<Rightarrow> string" where
  "repr_byte q c =
     (if c = q \<or> c = CHR 0x5C then [CHR 0x5C, c]
      else if c = CHR 0x09 then [CHR 0x5C, CHR ''t'']
      else if c = CHR 0x0A then [CHR 0x5C, CHR ''n'']
      else if c = CHR 0x0D then [CHR 0x5C, CHR ''r'']
      else if (of_char c :: nat) < 32 \<or> (of_char c :: nat) \<ge> 127
        then [CHR 0x5C, CHR ''x'', hex_char ((of_char c :: nat) div 16),
              hex_char ((of_char c :: nat) mod 16)]
      else [c])"

definition bytes_repr :: "bytes \<Rightarrow> string" where
  "bytes_repr b =
     (let q = bytes_quote b in CHR ''b'' # q # concat (map (repr_byte q) b) @ [q])"

text \<open>\<open>str(v)\<close>.\<close>

fun py_str :: "pyval \<Rightarrow> string" where
  "py_str PNone = ''None''"
| "py_str (PStr s) = s"
| "py_str (PBytes b) = bytes_repr b"
| "py_str (PInt i) = dec_int i"
| "py_str (PBool b) = (if b then ''True'' else ''False'')"

section \<open>Template engine (\<open>string.Template\<close>, as used by \<open>util.Template\<close>)\<close>

text \<open>
  \<open>Template.pattern\<close> is, with delimiter \<open>$\<close> and identifiers \<open>(?a:[_a-z][_a-z0-9]*)\<close>
  under \<open>re.IGNORECASE\<close>:
  \<^verbatim>\<open>\$(?:(?P<escaped>\$)|(?P<named>id)|{(?P<braced>id)}|(?P<invalid>))\<close>
  A scan of the template yields the matches of \<open>pattern.finditer\<close>, left to right and
  not overlapping, with the text between them.
\<close>

definition in_range :: "char \<Rightarrow> char \<Rightarrow> char \<Rightarrow> bool" where
  "in_range lo hi c = ((of_char lo :: nat) \<le> of_char c \<and> (of_char c :: nat) \<le> of_char hi)"

definition idstart :: "char \<Rightarrow> bool" where
  "idstart c = (c = CHR ''_'' \<or> in_range (CHR ''a'') (CHR ''z'') c \<or> in_range (CHR ''A'') (CHR ''Z'') c)"

definition idchar :: "char \<Rightarrow> bool" where
  "idchar c = (idstart c \<or> in_range (CHR ''0'') (CHR ''9'') c)"

datatype seg =
    Lit char
  | Escaped
  | Named string
  | Braced string
  | Invalid

text \<open>The source text a segment stands for (\<open>mo.group()\<close> for a match).\<close>

fun seg_text :: "seg \<Rightarrow> string" where
  "seg_text (Lit c) = [c]"
| "seg_text Escaped = ''$$''"
| "seg_text (Named n) = CHR ''$'' # n"
| "seg_text (Braced n) = ''${'' @ n @ ''}''"
| "seg_text Invalid = ''$''"

text \<open>The match that starts at a \<open>$\<close>, given the text after it, and the text left.\<close>

definition match_dollar :: "string \<Rightarrow> seg \<times> string" where
  "match_dollar r =
     (case r of
        [] \<Rightarrow> (Invalid, [])
      | c # r' \<Rightarrow>
          if c = CHR ''$'' then (Escaped, r')
          else if idstart c then (Named (takeWhile idchar r), dropWhile idchar r)
          else if c = CHR ''{'' then
            (let n = takeWhile idchar r'; t = dropWhile idchar r' in
             case (n, t) of
               (a # _, d # t') \<Rightarrow>
                 if idstart a \<and> d = CHR ''}'' then (Braced n, t') else (Invalid, r)
             | _ \<Rightarrow> (Invalid, r))
          else (Invalid, r))"

function scan :: "string \<Rightarrow> seg list" where
  "scan [] = []"
| "scan (c # cs) =
     (if c = CHR ''$'' then (case match_dollar cs of (s, rest) \<Rightarrow> s # scan rest)
      else Lit c # scan cs)"
  by pat_completeness auto
termination
proof (relation "measure length")
  show "wf (measure (length :: string \<Rightarrow> nat))" by simp
next
  fix c :: char and cs x1 x2
  assume a: "(x1, x2) = match_dollar cs"
  have d: "\<And>xs. length (dropWhile idchar xs) \<le> length (xs :: string)"
    by (simp add: length_dropWhile_le)
  have "length (snd (match_dollar cs)) \<le> length cs"
  proof (cases cs)
    case Nil
    then show ?thesis by (simp add: match_dollar_def)
  next
    case (Cons e r')
    have "length t' < length r'" if "dropWhile idchar r' = g # t'" for g t'
      using d [of r'] that by simp
    then show ?thesis
      using Cons d [of cs] d [of r']
      by (auto simp: match_dollar_def Let_def split: list.splits)
  qed
  moreover from a have "x2 = snd (match_dollar cs)" by (metis snd_conv)
  ultimately show "(x2, c # cs) \<in> measure length" by simp
next
  fix c :: char and cs
  show "(cs, c # cs) \<in> measure length" by simp
qed

text \<open>
  \<open>Template.get_identifiers\<close> (the back patch of \<open>util.py\<close> has the same body): the
  named and braced groups in order of first appearance.  The \<open>invalid\<close> group of the
  default pattern is the empty string, never \<open>None\<close>, so the \<open>raise\<close> is unreachable.
\<close>

fun add_id :: "string list \<Rightarrow> seg \<Rightarrow> string list" where
  "add_id ids (Named n) = (if n \<in> set ids then ids else ids @ [n])"
| "add_id ids (Braced n) = (if n \<in> set ids then ids else ids @ [n])"
| "add_id ids _ = ids"

definition get_identifiers :: "string \<Rightarrow> string list" where
  "get_identifiers t = foldl add_id [] (scan t)"

text \<open>
  \<open>Template.safe_substitute(mapping, **kws)\<close>: \<open>convert\<close> is applied to every match;
  a \<open>KeyError\<close> of the lookup gives the match's own text back.
\<close>

fun convert :: "(string \<rightharpoonup> pyval) \<Rightarrow> seg \<Rightarrow> string" where
  "convert m (Lit c) = [c]"
| "convert m Escaped = ''$''"
| "convert m (Named n) = (case m n of Some v \<Rightarrow> py_str v | None \<Rightarrow> seg_text (Named n))"
| "convert m (Braced n) = (case m n of Some v \<Rightarrow> py_str v | None \<Rightarrow> seg_text (Braced n))"
| "convert m Invalid = ''$''"

definition safe_substitute :: "(string \<rightharpoonup> pyval) \<Rightarrow> string \<Rightarrow> string" where
  "safe_substitute m t = concat (map (convert m) (scan t))"

section \<open>Decoding bytes\<close>

text \<open>
  \<open>b.decode('utf-8')\<close> is strict: it raises \<open>UnicodeDecodeError\<close> on an ill-formed
  sequence (a stray continuation byte, an overlong form, a surrogate, a code point
  beyond U+10FFFF, a truncated sequence).
\<close>

definition cont :: "nat \<Rightarrow> bool" where
  "cont b = (0x80 \<le> b \<and> b \<le> 0xBF)"

fun utf8_ok :: "nat list \<Rightarrow> bool" where
  "utf8_ok [] = True"
| "utf8_ok (a # r) =
     (if a < 0x80 then utf8_ok r
      else if 0xC2 \<le> a \<and> a \<le> 0xDF then
        (case r of b # r1 \<Rightarrow> cont b \<and> utf8_ok r1 | _ \<Rightarrow> False)
      else if 0xE0 \<le> a \<and> a \<le> 0xEF then
        (case r of
           b # c # r2 \<Rightarrow>
             (if a = 0xE0 then 0xA0 \<le> b \<and> b \<le> 0xBF
              else if a = 0xED then 0x80 \<le> b \<and> b \<le> 0x9F
              else cont b) \<and> cont c \<and> utf8_ok r2
         | _ \<Rightarrow> False)
      else if 0xF0 \<le> a \<and> a \<le> 0xF4 then
        (case r of
           b # c # d # r3 \<Rightarrow>
             (if a = 0xF0 then 0x90 \<le> b \<and> b \<le> 0xBF
              else if a = 0xF4 then 0x80 \<le> b \<and> b \<le> 0x8F
              else cont b) \<and> cont c \<and> cont d \<and> utf8_ok r3
         | _ \<Rightarrow> False)
      else False)"

definition decode_utf8 :: "bytes \<Rightarrow> error + string" where
  "decode_utf8 b = (if utf8_ok (map of_char b) then Inr b else Inl UnicodeDecodeError)"

section \<open>Encoding bytes\<close>

text \<open>\<open>to_base64\<close>: \<open>base64.b64encode(data).decode('utf-8')\<close>, the standard alphabet with padding.\<close>

definition b64_char :: "nat \<Rightarrow> char" where
  "b64_char i = ''ABCDEFGHIJKLMNOPQRSTUVWXYZabcdefghijklmnopqrstuvwxyz0123456789+/'' ! (i mod 64)"

fun b64_groups :: "nat list \<Rightarrow> string" where
  "b64_groups (a # b # c # r) =
     [b64_char (a div 4), b64_char ((a mod 4) * 16 + b div 16),
      b64_char ((b mod 16) * 4 + c div 64), b64_char (c mod 64)] @ b64_groups r"
| "b64_groups [a, b] =
     [b64_char (a div 4), b64_char ((a mod 4) * 16 + b div 16), b64_char ((b mod 16) * 4), CHR ''='']"
| "b64_groups [a] = [b64_char (a div 4), b64_char ((a mod 4) * 16), CHR ''='', CHR ''='']"
| "b64_groups [] = []"

definition to_base64 :: "bytes \<Rightarrow> string" where
  "to_base64 data = b64_groups (map of_char data)"

section \<open>The file system\<close>

text \<open>
  A file system maps resolved absolute paths (the list of names from the root) to
  directories and files.  The root is always a directory.  Permissions, symbolic
  links and other processes are not modelled.
\<close>

type_synonym path = "string list"

datatype node = Dir | File bytes

type_synonym filesys = "path \<Rightarrow> node option"

definition is_dir :: "filesys \<Rightarrow> path \<Rightarrow> bool" where
  "is_dir fs p = (p = [] \<or> fs p = Some Dir)"

text \<open>\<open>s.split('/')\<close>.\<close>

fun split_slash :: "string \<Rightarrow> string list" where
  "split_slash [] = [[]]"
| "split_slash (c # cs) =
     (if c = CHR ''/'' then [] # split_slash cs
      else (case split_slash cs of [] \<Rightarrow> [[c]] | w # ws \<Rightarrow> (c # w) # ws))"

text \<open>
  Path resolution by the operating system: every component is looked up in a
  directory that exists; an empty component and \<open>.\<close> stay, \<open>..\<close> goes to the parent
  (the root is its own parent).  The last name need not exist.
\<close>

fun walk :: "filesys \<Rightarrow> path \<Rightarrow> string list \<Rightarrow> error + path" where
  "walk fs d [] = Inr d"
| "walk fs d (c # cs) =
     (if \<not> is_dir fs d then
        Inl (case fs d of Some (File _) \<Rightarrow> NotADirectoryError (concat d)
             | _ \<Rightarrow> FileNotFoundError (concat d))
      else if c = [] \<or> c = ''.'' then walk fs d cs
      else if c = ''..'' then walk fs (butlast d) cs
      else walk fs (d @ [c]) cs)"

text \<open>
  What the code takes from its environment: the process-wide configuration
  (\<open>conf.CONFIG.get('default_workdir')\<close>), the process's working directory, and the
  library and system calls whose behaviour no claim depends on.
\<close>

record proc =
  p_fs :: filesys
  p_stdout :: bytes
  p_stderr :: bytes
  p_returncode :: int
  p_begin_time :: int
  p_end_time :: int

record world =
  default_workdir :: "string option"
  pwd :: path
  shlex_split :: "string \<Rightarrow> string list option"
  shlex_join :: "string list \<Rightarrow> string"
  abspath :: "string \<Rightarrow> string"
  glob_magic :: "filesys \<Rightarrow> string \<Rightarrow> string \<Rightarrow> string list"
  subprocess_shell :: "string \<Rightarrow> string \<Rightarrow> filesys \<Rightarrow> proc option"

definition resolve :: "world \<Rightarrow> filesys \<Rightarrow> string \<Rightarrow> error + path" where
  "resolve w fs s =
     walk fs (case s of c # _ \<Rightarrow> if c = CHR ''/'' then [] else pwd w | [] \<Rightarrow> pwd w) (split_slash s)"

text \<open>\<open>os.path.isdir\<close> and \<open>os.path.lexists\<close>.\<close>

definition isdir :: "world \<Rightarrow> filesys \<Rightarrow> string \<Rightarrow> bool" where
  "isdir w fs s = (case resolve w fs s of Inr p \<Rightarrow> is_dir fs p | Inl _ \<Rightarrow> False)"

definition lexists :: "world \<Rightarrow> filesys \<Rightarrow> string \<Rightarrow> bool" where
  "lexists w fs s = (case resolve w fs s of Inr p \<Rightarrow> p = [] \<or> fs p \<noteq> None | Inl _ \<Rightarrow> False)"

text \<open>
  \<open>open(s, 'wb')\<close>: the file is created or truncated at once; the result is the
  resolved path of the open file and the new file system.
\<close>

definition open_wb :: "world \<Rightarrow> filesys \<Rightarrow> string \<Rightarrow> error + (path \<times> filesys)" where
  "open_wb w fs s =
     (case resolve w fs s of
        Inl e \<Rightarrow> Inl e
      | Inr p \<Rightarrow> if is_dir fs p then Inl (IsADirectoryError s) else Inr (p, fs(p \<mapsto> File [])))"

text \<open>\<open>open(s, 'rb')\<close> followed by \<open>read()\<close>.\<close>

definition read_rb :: "world \<Rightarrow> filesys \<Rightarrow> string \<Rightarrow> error + bytes" where
  "read_rb w fs s =
     (case resolve w fs s of
        Inl e \<Rightarrow> Inl e
      | Inr p \<Rightarrow>
          if is_dir fs p then Inl (IsADirectoryError s)
          else (case fs p of Some (File b) \<Rightarrow> Inr b | _ \<Rightarrow> Inl (FileNotFoundError s)))"

text \<open>\<open>os.makedirs(s, exist_ok=True)\<close>: the missing directories are created in turn.\<close>

fun mkdirs :: "filesys \<Rightarrow> path \<Rightarrow> string list \<Rightarrow> error + filesys" where
  "mkdirs fs d [] = Inr fs"
| "mkdirs fs d (c # cs) =
     (if c = [] \<or> c = ''.'' then mkdirs fs d cs
      else if c = ''..'' then mkdirs fs (butlast d) cs
      else (case fs (d @ [c]) of
              Some (File _) \<Rightarrow>
                Inl (if cs = [] then FileExistsError (concat (d @ [c]))
                     else NotADirectoryError (concat (d @ [c])))
            | Some Dir \<Rightarrow> mkdirs fs (d @ [c]) cs
            | None \<Rightarrow> mkdirs (fs(d @ [c] \<mapsto> Dir)) (d @ [c]) cs))"

definition makedirs :: "world \<Rightarrow> filesys \<Rightarrow> string \<Rightarrow> error + filesys" where
  "makedirs w fs s =
     mkdirs fs (case s of c # _ \<Rightarrow> if c = CHR ''/'' then [] else pwd w | [] \<Rightarrow> pwd w) (split_slash s)"

text \<open>
  \<open>shutil.rmtree(s, ignore_errors=True)\<close>: a directory goes with all it holds; anything
  else (a path that does not resolve, a missing name, a plain file) is an error that
  is ignored.
\<close>

definition rmtree :: "world \<Rightarrow> filesys \<Rightarrow> string \<Rightarrow> filesys" where
  "rmtree w fs s =
     (case resolve w fs s of
        Inl _ \<Rightarrow> fs
      | Inr p \<Rightarrow> if is_dir fs p then (\<lambda>q. if prefix p q then None else fs q) else fs)"

text \<open>
  \<open>glob.glob(pattern, root_dir=root)\<close>.  A pattern without the magic characters
  \<open>*\<close>, \<open>?\<close> and \<open>[\<close> matches itself if the path it names under \<open>root\<close> exists (a
  pattern that ends in a slash must name a directory); the matching of wildcards
  is the world's.
\<close>

definition has_magic :: "string \<Rightarrow> bool" where
  "has_magic s = (\<exists>c \<in> set s. c = CHR ''*'' \<or> c = CHR ''?'' \<or> c = CHR ''['')"

definition rstrip_slash :: "string \<Rightarrow> string" where
  "rstrip_slash s = rev (dropWhile (\<lambda>c. c = CHR ''/'') (rev s))"

definition path_split :: "string \<Rightarrow> string \<times> string" where
  "path_split p =
     (let tail = rev (takeWhile (\<lambda>c. c \<noteq> CHR ''/'') (rev p));
          head = rev (dropWhile (\<lambda>c. c \<noteq> CHR ''/'') (rev p))
      in (if head \<noteq> [] \<and> (\<exists>c \<in> set head. c \<noteq> CHR ''/'') then rstrip_slash head else head, tail))"

definition path_join :: "string \<Rightarrow> string \<Rightarrow> string" where
  "path_join a b =
     (if b \<noteq> [] \<and> hd b = CHR ''/'' then b
      else if a = [] \<or> last a = CHR ''/'' then a @ b
      else a @ CHR ''/'' # b)"

definition glob_join :: "string \<Rightarrow> string \<Rightarrow> string" where
  "glob_join d b = (if d = [] \<or> b = [] then (if d \<noteq> [] then d else b) else path_join d b)"

definition glob :: "world \<Rightarrow> filesys \<Rightarrow> string \<Rightarrow> string \<Rightarrow> string list" where
  "glob w fs pattern root =
     (if \<not> has_magic pattern then
        (case path_split pattern of
           (dirname, basename) \<Rightarrow>
             if basename \<noteq> [] then
               (if lexists w fs (glob_join root pattern) then [pattern] else [])
             else
               (if isdir w fs (glob_join root dirname) then [pattern] else []))
      else glob_magic w fs pattern root)"

section \<open>Command configuration\<close>

text \<open>
  A parameter's configuration: the truth value of \<open>param_config.get('required')\<close>,
  and the values of \<open>param_config.get('type')\<close> and \<open>param_config.get('filename')\<close>.
\<close>

record param_config =
  p_required :: bool
  p_type :: "string option"
  p_filename :: "string option"

text \<open>A structured entry of \<open>return\<close>; a field is \<open>None\<close> when the key is missing.\<close>

record return_dict =
  r_name :: "string option"
  r_type :: "string option"
  r_filename :: "string option"
  r_glob :: "string option"
  r_mimetype :: "string option"
  r_encoding :: "string option"

datatype return_item = RStr string | RDict return_dict | ROther

text \<open>
  The command configuration.  \<open>c_cwd\<close> is \<open>cmd_config.get("cwd", "")\<close>.  \<open>c_params\<close> is
  the dictionary of parameters in its order of iteration, \<open>None\<close> for a null value
  (a missing key is the empty dictionary).  \<open>c_command\<close> is \<open>None\<close> when the key is
  missing.  \<open>c_return\<close> is \<open>cmd_config.get('return', [])\<close>, \<open>None\<close> for a null value.
\<close>

record cmd_config =
  c_cwd :: "string option"
  c_params :: "(string \<times> param_config) list option"
  c_command :: "pyval list option"
  c_return :: "return_item list option"

section \<open>The session\<close>

datatype log_record =
    CmdLog "string option" string
  | ExecLog "string option" int int string

record payload =
  body :: string
  fielname :: "string option"
  mimetype :: string
  encoding :: string

datatype retval = RText "string option" | RPayload payload | RList "payload list"

text \<open>
  The state of a \<open>CmdSession\<close> and of what it acts on: the file system, \<open>self.job_id\<close>,
  \<open>self._params_cache\<close>, and three traces: the files opened for writing with what was
  written, the command lines handed to the shell, and the records given to
  \<open>util.json_log_info\<close> (without the time stamp it adds).
\<close>

record session =
  fsys :: filesys
  job_id :: "string option"
  params_cache :: "string \<rightharpoonup> pyval"
  writes :: "(path \<times> bytes) list"
  procs :: "string list"
  logs :: "log_record list"

definition init_session :: "filesys \<Rightarrow> session" where
  "init_session f =
     \<lparr>fsys = f, job_id = None, params_cache = Map.empty, writes = [], procs = [], logs = []\<rparr>"

text \<open>\<open>f'{cwd.rstrip("/")}/{self.job_id}'\<close>; \<open>None.rstrip\<close> raises.\<close>

definition get_job_path :: "world \<Rightarrow> cmd_config \<Rightarrow> session \<Rightarrow> error + string" where
  "get_job_path w cfg st =
     (case (case c_cwd cfg of
              Some c \<Rightarrow> if c \<noteq> [] then Some c else default_workdir w
            | None \<Rightarrow> default_workdir w) of
        None \<Rightarrow> Inl AttributeError
      | Some cwd \<Rightarrow>
          Inr (rstrip_slash cwd @ ''/'' @ (case job_id st of Some j \<Rightarrow> j | None \<Rightarrow> ''None'')))"

definition get_job_file_path :: "world \<Rightarrow> cmd_config \<Rightarrow> session \<Rightarrow> string \<Rightarrow> error + string" where
  "get_job_file_path w cfg st filename =
     (case get_job_path w cfg st of Inl e \<Rightarrow> Inl e | Inr jp \<Rightarrow> Inr (jp @ ''/'' @ filename))"

definition ensure_job_path :: "world \<Rightarrow> cmd_config \<Rightarrow> session \<Rightarrow> (error + unit) \<times> session" where
  "ensure_job_path w cfg st =
     (case get_job_path w cfg st of
        Inl e \<Rightarrow> (Inl e, st)
      | Inr jp \<Rightarrow>
          (case makedirs w (fsys st) jp of
             Inl e \<Rightarrow> (Inl e, st)
           | Inr f \<Rightarrow> (Inr (), st\<lparr>fsys := f\<rparr>)))"

definition clean_job_path :: "world \<Rightarrow> cmd_config \<Rightarrow> session \<Rightarrow> (error + unit) \<times> session" where
  "clean_job_path w cfg st =
     (case get_job_path w cfg st of
        Inl e \<Rightarrow> (Inl e, st)
      | Inr jp \<Rightarrow> (Inr (), st\<lparr>fsys := rmtree w (fsys st) jp\<rparr>))"

section \<open>Parameter resolution\<close>

type_synonym kwargs = "string \<rightharpoonup> pyval"

text \<open>
  The body of \<open>with open(..., 'wb') as fd\<close> in \<open>get_params\<close>: \<open>value or b''\<close>, a \<open>str\<close> is
  encoded, and \<open>fd.write\<close> takes bytes only.
\<close>

definition file_bytes :: "pyval \<Rightarrow> error + bytes" where
  "file_bytes value =
     (case (if truthy value then value else PBytes []) of
        PStr s \<Rightarrow> Inr s
      | PBytes b \<Rightarrow> Inr b
      | _ \<Rightarrow> Inl TypeError)"

text \<open>
  One turn of the loop of \<open>get_params\<close>, for one name: the value to store in \<open>ret\<close>
  (\<open>None\<close> when the name is skipped) and the new state.
\<close>

definition get_param :: "world \<Rightarrow> cmd_config \<Rightarrow> kwargs \<Rightarrow> session \<Rightarrow> string \<Rightarrow> (error + pyval option) \<times> session" where
  "get_param w cfg kw st param_name =
     (case params_cache st param_name of
        Some v \<Rightarrow> (Inr (Some v), st)
      | None \<Rightarrow>
          (case map_of (case c_params cfg of Some ps \<Rightarrow> ps | None \<Rightarrow> []) param_name of
             None \<Rightarrow>
               (case kw param_name of
                  Some v \<Rightarrow> (Inr (Some v), st\<lparr>params_cache := (params_cache st)(param_name \<mapsto> v)\<rparr>)
                | None \<Rightarrow> (Inr None, st))
           | Some param_config \<Rightarrow>
               (let value = (case kw param_name of Some v \<Rightarrow> v | None \<Rightarrow> PNone) in
                if p_required param_config \<and> value = PNone then
                  (Inl (ValueError (''Missing required param: '' @ param_name)), st)
                else if p_type param_config = Some ''file'' then
                  (let filename = (case p_filename param_config of
                                     Some f \<Rightarrow> if f \<noteq> [] then f else param_name
                                   | None \<Rightarrow> param_name) in
                   case get_job_file_path w cfg st filename of
                     Inl e \<Rightarrow> (Inl e, st)
                   | Inr fp \<Rightarrow>
                       (case open_wb w (fsys st) fp of
                          Inl e \<Rightarrow> (Inl e, st)
                        | Inr (target, f1) \<Rightarrow>
                            (case file_bytes value of
                               Inl e \<Rightarrow> (Inl e, st\<lparr>fsys := f1, writes := writes st @ [(target, [])]\<rparr>)
                             | Inr b \<Rightarrow>
                                 (Inr (Some (PStr filename)),
                                  st\<lparr>fsys := f1(target \<mapsto> File b),
                                     params_cache := (params_cache st)(param_name \<mapsto> PStr filename),
                                     writes := writes st @ [(target, b)]\<rparr>))))
                else
                  (Inr (Some value), st\<lparr>params_cache := (params_cache st)(param_name \<mapsto> value)\<rparr>))))"

text \<open>\<open>get_params(*param_name_list, **kwargs)\<close>, with \<open>ret\<close> as it stands.\<close>

fun get_params_loop :: "world \<Rightarrow> cmd_config \<Rightarrow> kwargs \<Rightarrow> string list \<Rightarrow> (string \<rightharpoonup> pyval) \<Rightarrow> session \<Rightarrow> (error + (string \<rightharpoonup> pyval)) \<times> session" where
  "get_params_loop w cfg kw [] ret st = (Inr ret, st)"
| "get_params_loop w cfg kw (n # ns) ret st =
     (case get_param w cfg kw st n of
        (Inl e, st1) \<Rightarrow> (Inl e, st1)
      | (Inr None, st1) \<Rightarrow> get_params_loop w cfg kw ns ret st1
      | (Inr (Some v), st1) \<Rightarrow> get_params_loop w cfg kw ns (ret(n \<mapsto> v)) st1)"

definition get_params :: "world \<Rightarrow> cmd_config \<Rightarrow> kwargs \<Rightarrow> string list \<Rightarrow> session \<Rightarrow> (error + (string \<rightharpoonup> pyval)) \<times> session" where
  "get_params w cfg kw param_name_list st = get_params_loop w cfg kw param_name_list Map.empty st"

text \<open>
  \<open>preprocess_params\<close>: every declared name in turn, each with its own call of
  \<open>get_params\<close>.  Iterating over a null \<open>params\<close> raises.
\<close>

fun preprocess_loop :: "world \<Rightarrow> cmd_config \<Rightarrow> kwargs \<Rightarrow> string list \<Rightarrow> session \<Rightarrow> (error + unit) \<times> session" where
  "preprocess_loop w cfg kw [] st = (Inr (), st)"
| "preprocess_loop w cfg kw (n # ns) st =
     (case get_params w cfg kw [n] st of
        (Inl e, st1) \<Rightarrow> (Inl e, st1)
      | (Inr _, st1) \<Rightarrow> preprocess_loop w cfg kw ns st1)"

definition preprocess_params :: "world \<Rightarrow> cmd_config \<Rightarrow> kwargs \<Rightarrow> session \<Rightarrow> (error + unit) \<times> session" where
  "preprocess_params w cfg kw st =
     (case c_params cfg of
        None \<Rightarrow> (Inl TypeError, st)
      | Some ps \<Rightarrow> preprocess_loop w cfg kw (map fst ps) st)"

section \<open>Building the command line\<close>

definition process_input_item :: "world \<Rightarrow> cmd_config \<Rightarrow> kwargs \<Rightarrow> (string \<rightharpoonup> pyval) \<Rightarrow> pyval \<Rightarrow> session \<Rightarrow> (error + string) \<times> session" where
  "process_input_item w cfg kw cmd_env item st =
     (if item = PNone then (Inr [], st)
      else
        (let param_name_list = get_identifiers (py_str item) in
         if param_name_list \<noteq> [] then
           (case get_params w cfg kw param_name_list st of
              (Inl e, st1) \<Rightarrow> (Inl e, st1)
            | (Inr param_values, st1) \<Rightarrow>
                (Inr (safe_substitute (cmd_env ++ param_values) (py_str item)), st1))
         else (Inr (py_str item), st)))"

text \<open>
  The first loop of \<open>prepare_cmd\<close>.  The call
  \<open>self.process_input_item(item, cmd_env, **kwargs)\<close> raises \<open>TypeError\<close> (multiple
  values for an argument) when the caller's keys include \<open>item\<close> or \<open>cmd_env\<close>.
\<close>

fun process_items :: "world \<Rightarrow> cmd_config \<Rightarrow> kwargs \<Rightarrow> (string \<rightharpoonup> pyval) \<Rightarrow> pyval list \<Rightarrow> session \<Rightarrow> (error + string list) \<times> session" where
  "process_items w cfg kw cmd_env [] st = (Inr [], st)"
| "process_items w cfg kw cmd_env (item # items) st =
     (if kw ''item'' \<noteq> None \<or> kw ''cmd_env'' \<noteq> None then (Inl TypeError, st)
      else
        (case process_input_item w cfg kw cmd_env item st of
           (Inl e, st1) \<Rightarrow> (Inl e, st1)
         | (Inr a, st1) \<Rightarrow>
             (case process_items w cfg kw cmd_env items st1 of
                (Inl e, st2) \<Rightarrow> (Inl e, st2)
              | (Inr as, st2) \<Rightarrow> (Inr (a # as), st2))))"

text \<open>The second loop of \<open>prepare_cmd\<close>: \<open>shlex.split\<close> raises on an unclosed quotation.\<close>

fun split_all :: "world \<Rightarrow> string list \<Rightarrow> error + string list" where
  "split_all w [] = Inr []"
| "split_all w (i # is) =
     (case shlex_split w i of
        None \<Rightarrow> Inl (ValueError ''No closing quotation'')
      | Some ts \<Rightarrow> (case split_all w is of Inl e \<Rightarrow> Inl e | Inr r \<Rightarrow> Inr (ts @ r)))"

definition prepare_cmd :: "world \<Rightarrow> cmd_config \<Rightarrow> kwargs \<Rightarrow> session \<Rightarrow> (error + string) \<times> session" where
  "prepare_cmd w cfg kw st =
     (case get_job_path w cfg st of
        Inl e \<Rightarrow> (Inl e, st)
      | Inr jp \<Rightarrow>
          (let cmd_env = [''cwd'' \<mapsto> PStr jp, ''cwd_abs'' \<mapsto> PStr (abspath w jp)] in
           case c_command cfg of
             None \<Rightarrow> (Inl (KeyError ''command''), st)
           | Some items \<Rightarrow>
               (case process_items w cfg kw cmd_env items st of
                  (Inl e, st1) \<Rightarrow> (Inl e, st1)
                | (Inr args_list, st1) \<Rightarrow>
                    (case split_all w args_list of
                       Inl e \<Rightarrow> (Inl e, st1)
                     | Inr result_args_list \<Rightarrow> (Inr (shlex_join w result_args_list), st1)))))"

section \<open>Execution and result assembly\<close>

text \<open>
  The first part of \<open>execute\<close>: the subprocess runs in the job's directory, and
  one record is logged.  The arguments of \<open>util.json_log_info\<close> are evaluated before
  the call, so a \<open>stderr\<close> that does not decode raises before anything is logged.
\<close>

definition run_subprocess :: "world \<Rightarrow> cmd_config \<Rightarrow> string \<Rightarrow> session \<Rightarrow> (error + proc) \<times> session" where
  "run_subprocess w cfg cmd st =
     (case get_job_path w cfg st of
        Inl e \<Rightarrow> (Inl e, st)
      | Inr jp \<Rightarrow>
          (case subprocess_shell w cmd jp (fsys st) of
             None \<Rightarrow> (Inl SpawnError, st)
           | Some p \<Rightarrow>
               (let st1 = st\<lparr>fsys := p_fs p, procs := procs st @ [cmd]\<rparr> in
                case decode_utf8 (p_stderr p) of
                  Inl e \<Rightarrow> (Inl e, st1)
                | Inr err_text \<Rightarrow>
                    (Inr p,
                     st1\<lparr>logs := logs st1 @
                       [ExecLog (job_id st1) (p_returncode p) (p_end_time p - p_begin_time p) err_text]\<rparr>))))"

definition mk_payload :: "return_dict \<Rightarrow> bytes \<Rightarrow> string option \<Rightarrow> payload" where
  "mk_payload item data fname =
     \<lparr>body = to_base64 data,
      fielname = fname,
      mimetype = (case r_mimetype item of Some m \<Rightarrow> m | None \<Rightarrow> []),
      encoding = (case r_encoding item of Some e \<Rightarrow> e | None \<Rightarrow> ''base64'')\<rparr>"

text \<open>The files matched by a \<open>file_list\<close> entry, each read at \<open>get_job_file_path(filename)\<close>.\<close>

fun read_matched :: "world \<Rightarrow> cmd_config \<Rightarrow> session \<Rightarrow> return_dict \<Rightarrow> string list \<Rightarrow> error + payload list" where
  "read_matched w cfg st item [] = Inr []"
| "read_matched w cfg st item (filename # rest) =
     (case get_job_file_path w cfg st filename of
        Inl e \<Rightarrow> Inl e
      | Inr fp \<Rightarrow>
          (case read_rb w (fsys st) fp of
             Inl e \<Rightarrow> Inl e
           | Inr data \<Rightarrow>
               (case read_matched w cfg st item rest of
                  Inl e \<Rightarrow> Inl e
                | Inr ps \<Rightarrow> Inr (mk_payload item data (Some filename) # ps))))"

text \<open>The body of the loop over \<open>return\<close> for a structured entry.\<close>

definition return_entry :: "world \<Rightarrow> cmd_config \<Rightarrow> session \<Rightarrow> proc \<Rightarrow> return_dict \<Rightarrow> (string \<rightharpoonup> retval) \<Rightarrow> error + (string \<rightharpoonup> retval)" where
  "return_entry w cfg st p item ret =
     (case r_name item of
        None \<Rightarrow> Inl (KeyError ''name'')
      | Some arg_name \<Rightarrow>
          (case r_type item of
             None \<Rightarrow> Inl (KeyError ''type'')
           | Some arg_type \<Rightarrow>
               (case (if arg_type = ''file'' then
                        (case r_filename item of
                           None \<Rightarrow> Inl (KeyError ''filename'')
                         | Some fname \<Rightarrow>
                             (case get_job_file_path w cfg st fname of
                                Inl e \<Rightarrow> Inl e
                              | Inr fp \<Rightarrow>
                                  (case read_rb w (fsys st) fp of
                                     Inl e \<Rightarrow> Inl e
                                   | Inr data \<Rightarrow>
                                       Inr (ret(arg_name \<mapsto> RPayload (mk_payload item data None))))))
                      else Inr ret) of
                  Inl e \<Rightarrow> Inl e
                | Inr ret1 \<Rightarrow>
                    if arg_type = ''stdout'' \<or> arg_type = ''stderr'' then
                      Inr (ret1(arg_name \<mapsto> RPayload (mk_payload item
                             (if arg_type = ''stdout'' then p_stdout p else p_stderr p) None)))
                    else if arg_type = ''file_list'' then
                      (case get_job_path w cfg st of
                         Inl e \<Rightarrow> Inl e
                       | Inr root_dir \<Rightarrow>
                           (case read_matched w cfg st item
                                   (case r_glob item of
                                      Some g \<Rightarrow> if g \<noteq> [] then glob w (fsys st) g root_dir else []
                                    | None \<Rightarrow> []) of
                              Inl e \<Rightarrow> Inl e
                            | Inr ps \<Rightarrow> Inr (ret1(arg_name \<mapsto> RList ps))))
                    else Inr ret1)))"

fun assemble :: "world \<Rightarrow> cmd_config \<Rightarrow> session \<Rightarrow> proc \<Rightarrow> return_item list \<Rightarrow> (string \<rightharpoonup> retval) \<Rightarrow> error + (string \<rightharpoonup> retval)" where
  "assemble w cfg st p [] ret = Inr ret"
| "assemble w cfg st p (item # items) ret =
     (case (case item of
              RStr s \<Rightarrow>
                if s = ''stdout'' then
                  (case decode_utf8 (p_stdout p) of
                     Inl e \<Rightarrow> Inl e | Inr t \<Rightarrow> Inr (ret(''stdout'' \<mapsto> RText (Some t))))
                else if s = ''stderr'' then
                  (case decode_utf8 (p_stderr p) of
                     Inl e \<Rightarrow> Inl e | Inr t \<Rightarrow> Inr (ret(''stderr'' \<mapsto> RText (Some t))))
                else Inr ret
            | RDict d \<Rightarrow> return_entry w cfg st p d ret
            | ROther \<Rightarrow> Inr ret) of
        Inl e \<Rightarrow> Inl e
      | Inr ret1 \<Rightarrow> assemble w cfg st p items ret1)"

definition execute :: "world \<Rightarrow> cmd_config \<Rightarrow> string \<Rightarrow> session \<Rightarrow> (error + (string \<rightharpoonup> retval)) \<times> session" where
  "execute w cfg cmd st =
     (case run_subprocess w cfg cmd st of
        (Inl e, st1) \<Rightarrow> (Inl e, st1)
      | (Inr p, st1) \<Rightarrow>
          (case c_return cfg of
             None \<Rightarrow> (Inl TypeError, st1)
           | Some items \<Rightarrow>
               (case assemble w cfg st1 p items Map.empty of
                  Inl e \<Rightarrow> (Inl e, st1)
                | Inr ret \<Rightarrow> (Inr (ret(''job_id'' \<mapsto> RText (job_id st1))), st1))))"

section \<open>A run\<close>

text \<open>
  The body of \<open>async with self.job_context()\<close> in \<open>run\<close>.  The call
  \<open>self.execute(cmd, **kwargs)\<close> raises \<open>TypeError\<close> (multiple values for the argument
  \<open>cmd\<close>) when the caller's keys include \<open>cmd\<close>, after the command line has been
  logged and before anything of \<open>execute\<close> runs.  A caller's key \<open>self\<close> is refused
  by the call of \<open>run\<close> itself, so the keyword arguments inside a run never hold it.
\<close>

definition run_body :: "world \<Rightarrow> cmd_config \<Rightarrow> kwargs \<Rightarrow> session \<Rightarrow> (error + (string \<rightharpoonup> retval)) \<times> session" where
  "run_body w cfg kw st =
     (case preprocess_params w cfg kw st of
        (Inl e, st1) \<Rightarrow> (Inl e, st1)
      | (Inr _, st1) \<Rightarrow>
          (case prepare_cmd w cfg kw st1 of
             (Inl e, st2) \<Rightarrow> (Inl e, st2)
           | (Inr cmd, st2) \<Rightarrow>
               (let st3 = st2\<lparr>logs := logs st2 @ [CmdLog (job_id st2) cmd]\<rparr> in
                if kw ''cmd'' \<noteq> None then (Inl TypeError, st3)
                else execute w cfg cmd st3)))"

text \<open>
  \<open>run\<close>, with \<open>job_context\<close> unfolded: \<open>uuid\<close> is the string \<open>uuid.uuid4()\<close> gives.
  The \<open>finally\<close> block runs whatever happened before; an exception of its own
  replaces the one in flight and skips \<open>self.job_id = None\<close>.
\<close>

definition run :: "world \<Rightarrow> cmd_config \<Rightarrow> string \<Rightarrow> kwargs \<Rightarrow> session \<Rightarrow> (error + bool \<times> (string \<rightharpoonup> retval)) \<times> session" where
  "run w cfg uuid kw st =
     (case (case ensure_job_path w cfg (st\<lparr>job_id := Some uuid\<rparr>) of
              (Inl e, st1) \<Rightarrow> (Inl e, st1)
            | (Inr _, st1) \<Rightarrow> run_body w cfg kw st1) of
        (r, st2) \<Rightarrow>
          (case clean_job_path w cfg st2 of
             (Inl e, st3) \<Rightarrow> (Inl e, st3)
           | (Inr _, st3) \<Rightarrow>
               (case r of
                  Inl e \<Rightarrow> (Inl e, st3\<lparr>job_id := None\<rparr>)
                | Inr result \<Rightarrow> (Inr (True, result), st3\<lparr>job_id := None\<rparr>))))"

section \<open>Example inputs\<close>

text \<open>
  A world for the examples.  Its \<open>shlex\<close> functions are those of the library on
  words without quotes, escapes or other shell syntax; its \<open>abspath\<close> is that of
  the library on normalised absolute paths; its wildcard matcher finds nothing; its
  shell runs a command that leaves the files alone, writes \<open>out\<close> and \<open>err\<close> and exits
  with \<open>rc\<close>.
\<close>

fun ex_words :: "string \<Rightarrow> string \<Rightarrow> string list" where
  "ex_words acc [] = (if acc = [] then [] else [acc])"
| "ex_words acc (c # cs) =
     (if c = CHR '' '' then (if acc = [] then ex_words [] cs else acc # ex_words [] cs)
      else ex_words (acc @ [c]) cs)"

fun ex_unwords :: "string list \<Rightarrow> string" where
  "ex_unwords [] = []"
| "ex_unwords [x] = x"
| "ex_unwords (x # y # r) = x @ CHR '' '' # ex_unwords (y # r)"

definition ex_world :: "bytes \<Rightarrow> bytes \<Rightarrow> int \<Rightarrow> world" where
  "ex_world out err rc =
     \<lparr>default_workdir = Some ''/tmp'',
      pwd = [],
      shlex_split = (\<lambda>s. Some (ex_words [] s)),
      shlex_join = ex_unwords,
      abspath = (\<lambda>s. s),
      glob_magic = (\<lambda>f pat root. []),
      subprocess_shell = (\<lambda>cmd cwd f.
        Some \<lparr>p_fs = f, p_stdout = out, p_stderr = err, p_returncode = rc,
              p_begin_time = 0, p_end_time = 1\<rparr>)\<rparr>"

text \<open>A file system with the base directory \<open>/work\<close> and a file beside the jobs' directories.\<close>

definition ex_fs :: filesys where
  "ex_fs = [[''work''] \<mapsto> Dir, [''work'', ''secret.txt''] \<mapsto> File ''TOPSECRET'']"

definition ex_uuid :: string where
  "ex_uuid = ''1b4e28ba-2fa1-41d2-883f-0016d3cca427''"

text \<open>\<open>echo $greeting\<close> with a required plain parameter, returning \<open>stdout\<close>.\<close>

definition ex_echo :: cmd_config where
  "ex_echo =
     \<lparr>c_cwd = Some ''/work'',
      c_params = Some [(''greeting'', \<lparr>p_required = True, p_type = Some ''plain'', p_filename = None\<rparr>)],
      c_command = Some [PStr ''echo'', PStr ''$greeting''],
      c_return = Some [RStr ''stdout'']\<rparr>"

definition ex_job_fs :: filesys where
  "ex_job_fs = ex_fs([''work'', ex_uuid] \<mapsto> Dir)"

definition ex_session :: session where
  "ex_session = (init_session ex_job_fs)\<lparr>job_id := Some ex_uuid\<rparr>"

definition ex_upload :: cmd_config where
  "ex_upload =
     \<lparr>c_cwd = Some ''/work'',
      c_params = Some [(''input'', \<lparr>p_required = True, p_type = Some ''file'', p_filename = Some ''input.txt''\<rparr>)],
      c_command = Some [PStr ''cat'', PStr ''$input''],
      c_return = Some [RStr ''stdout'']\<rparr>"

definition ex_optional :: cmd_config where
  "ex_optional =
     \<lparr>c_cwd = Some ''/work'',
      c_params = Some [(''name'', \<lparr>p_required = False, p_type = Some ''plain'', p_filename = None\<rparr>)],
      c_command = Some [PStr ''echo'', PStr ''$name''],
      c_return = Some [RStr ''stdout'']\<rparr>"

definition ex_two :: cmd_config where
  "ex_two =
     \<lparr>c_cwd = Some ''/work'',
      c_params = Some [(''data'', \<lparr>p_required = False, p_type = Some ''file'', p_filename = None\<rparr>),
                       (''mode'', \<lparr>p_required = True, p_type = Some ''plain'', p_filename = None\<rparr>)],
      c_command = Some [PStr ''wc'', PStr ''$mode'', PStr ''$data''],
      c_return = Some [RStr ''stdout'']\<rparr>"

definition ex_named :: cmd_config where
  "ex_named =
     \<lparr>c_cwd = Some ''/work'',
      c_params = Some [(''name'', \<lparr>p_required = False, p_type = Some ''plain'', p_filename = None\<rparr>),
                       (''greeting'', \<lparr>p_required = True, p_type = Some ''plain'', p_filename = None\<rparr>)],
      c_command = Some [PStr ''echo'', PStr ''$greeting'', PStr ''$name''],
      c_return = Some [RStr ''stdout'']\<rparr>"

text \<open>The identifiers of the pattern: \<open>[_a-z][_a-z0-9]*\<close>, letters of either case.\<close>

definition is_identifier :: "string \<Rightarrow> bool" where
  "is_identifier n = (n \<noteq> [] \<and> idstart (hd n) \<and> list_all idchar n)"






section \<open>Parameter resolution: one name\<close>

lemma get_param_frame:
  assumes "get_param w cfg kw st n = (r, st')"
  shows "procs st' = procs st" and "logs st' = logs st" and "job_id st' = job_id st"
  using assms
  by (auto simp: get_param_def Let_def split: option.splits sum.splits if_splits prod.splits)

lemma get_param_cache_other:
  assumes "get_param w cfg kw st n = (r, st')" and "m \<noteq> n"
  shows "params_cache st' m = params_cache st m"
  using assms
  by (auto simp: get_param_def Let_def split: option.splits sum.splits if_splits prod.splits)

lemma get_param_cache_keep:
  assumes "get_param w cfg kw st n = (r, st')" and "params_cache st m = Some v"
  shows "params_cache st' m = Some v"
  using assms
  by (auto simp: get_param_def Let_def split: option.splits sum.splits if_splits prod.splits)

lemma get_param_hit:
  assumes "params_cache st n = Some v"
  shows "get_param w cfg kw st n = (Inr (Some v), st)"
  using assms by (simp add: get_param_def)

lemma get_param_resolved_cached:
  assumes "get_param w cfg kw st n = (Inr (Some v), st')"
  shows "params_cache st' n = Some v"
  using assms
  by (auto simp: get_param_def Let_def split: option.splits sum.splits if_splits prod.splits)

lemma get_param_missing_required:
  assumes "c_params cfg = Some ps" and "map_of ps p = Some pc" and "p_required pc"
    and "params_cache st p = None" and "kw p = None \<or> kw p = Some PNone"
  shows "get_param w cfg kw st p = (Inl (ValueError (''Missing required param: '' @ p)), st)"
  using assms by (auto simp: get_param_def Let_def)

lemma get_params_single:
  "get_params w cfg kw [n] st =
     (case get_param w cfg kw st n of
        (Inl e, st1) \<Rightarrow> (Inl e, st1)
      | (Inr None, st1) \<Rightarrow> (Inr Map.empty, st1)
      | (Inr (Some v), st1) \<Rightarrow> (Inr [n \<mapsto> v], st1))"
  by (simp add: get_params_def split: prod.splits sum.splits option.splits)

lemma get_params_single_frame:
  assumes "get_params w cfg kw [n] st = (r, st')"
  shows "procs st' = procs st" and "logs st' = logs st" and "job_id st' = job_id st"
    and "m \<noteq> n \<Longrightarrow> params_cache st' m = params_cache st m"
  using assms get_param_frame [of w cfg kw st n] get_param_cache_other [of w cfg kw st n _ _ m]
  by (auto simp: get_params_single split: prod.splits sum.splits option.splits)

lemma get_params_single_missing:
  assumes "c_params cfg = Some ps" and "map_of ps p = Some pc" and "p_required pc"
    and "params_cache st p = None" and "kw p = None \<or> kw p = Some PNone"
  shows "get_params w cfg kw [p] st = (Inl (ValueError (''Missing required param: '' @ p)), st)"
  using get_param_missing_required [where kw = kw and p = p, OF assms]
  by (simp add: get_params_single)

section \<open>The job's directory and the frame of a run\<close>

lemma ensure_job_path_frame:
  assumes "ensure_job_path w cfg st = (r, st')"
  shows "procs st' = procs st" and "logs st' = logs st" and "job_id st' = job_id st"
    and "params_cache st' = params_cache st" and "writes st' = writes st"
  using assms by (auto simp: ensure_job_path_def split: sum.splits)

lemma clean_job_path_frame:
  assumes "clean_job_path w cfg st = (r, st')"
  shows "procs st' = procs st" and "logs st' = logs st" and "job_id st' = job_id st"
    and "params_cache st' = params_cache st" and "writes st' = writes st"
  using assms by (auto simp: clean_job_path_def split: sum.splits)

lemma run_fails_if_body_fails:
  assumes "ensure_job_path w cfg (st\<lparr>job_id := Some uuid\<rparr>) = (Inr u, st1)"
    and "run_body w cfg kw st1 = (Inl e, st2)"
  shows "\<exists>e' st'. run w cfg uuid kw st = (Inl e', st') \<and> procs st' = procs st2 \<and> writes st' = writes st2"
  using assms
  by (auto simp: run_def clean_job_path_def split: sum.splits prod.splits)

lemma run_fails_if_ensure_fails:
  assumes "ensure_job_path w cfg (st\<lparr>job_id := Some uuid\<rparr>) = (Inl e, st1)"
  shows "\<exists>e' st'. run w cfg uuid kw st = (Inl e', st') \<and> procs st' = procs st \<and> writes st' = writes st"
  using assms ensure_job_path_frame [OF assms]
  by (auto simp: run_def clean_job_path_def split: sum.splits prod.splits)

section \<open>Required parameters\<close>

lemma preprocess_loop_missing:
  assumes "c_params cfg = Some ps" and "map_of ps p = Some pc" and "p_required pc"
    and "kw p = None \<or> kw p = Some PNone"
  shows "p \<in> set names \<Longrightarrow> params_cache st p = None \<Longrightarrow>
         \<exists>e st'. preprocess_loop w cfg kw names st = (Inl e, st') \<and> procs st' = procs st"
proof (induction names arbitrary: st)
  case Nil
  then show ?case by simp
next
  case (Cons n ns)
  show ?case
  proof (cases "n = p")
    case True
    then show ?thesis
      using get_params_single_missing [where kw = kw and p = p, OF assms(1-3) Cons.prems(2) assms(4), of w]
      by simp
  next
    case False
    obtain r st1 where g: "get_params w cfg kw [n] st = (r, st1)"
      by (cases "get_params w cfg kw [n] st")
    note fr = get_params_single_frame [OF g]
    show ?thesis
    proof (cases r)
      case (Inl e)
      then show ?thesis using g fr(1) by simp
    next
      case (Inr a)
      have "p \<in> set ns" using Cons.prems(1) False by simp
      moreover have "params_cache st1 p = None"
        using fr(4) [of p] False Cons.prems(2) by simp
      ultimately obtain e st' where
        "preprocess_loop w cfg kw ns st1 = (Inl e, st')" "procs st' = procs st1"
        using Cons.IH by blast
      then show ?thesis using g Inr fr(1) by simp
    qed
  qed
qed

text \<open>
  C2.  A declared parameter that is required and for which the caller gives no value
  (the key is missing, or its value is \<open>None\<close>): resolving it raises the
  \<open>ValueError\<close> whose message names it and changes nothing, and a run with these
  arguments ends in an error without having started a subprocess.
\<close>

theorem required_param_missing:
  assumes "c_params cfg = Some ps" and "map_of ps p = Some pc" and "p_required pc"
    and "kw p = None \<or> kw p = Some PNone" and "params_cache st p = None"
  shows "get_params w cfg kw [p] st = (Inl (ValueError (''Missing required param: '' @ p)), st)
       \<and> (\<exists>e st'. run w cfg uuid kw st = (Inl e, st') \<and> procs st' = procs st)"
proof
  show "get_params w cfg kw [p] st = (Inl (ValueError (''Missing required param: '' @ p)), st)"
    using get_params_single_missing [where kw = kw and p = p, OF assms(1-3) assms(5) assms(4)] .
next
  obtain r st1 where en: "ensure_job_path w cfg (st\<lparr>job_id := Some uuid\<rparr>) = (r, st1)"
    by (cases "ensure_job_path w cfg (st\<lparr>job_id := Some uuid\<rparr>)")
  show "\<exists>e st'. run w cfg uuid kw st = (Inl e, st') \<and> procs st' = procs st"
  proof (cases r)
    case (Inl e)
    then show ?thesis using run_fails_if_ensure_fails [where kw = kw] en by blast
  next
    case (Inr u)
    note fr = ensure_job_path_frame [OF en]
    have "p \<in> set (map fst ps)"
      using assms(2) by (metis map_of_SomeD image_eqI fst_conv set_map)
    moreover have "params_cache st1 p = None" using fr(4) assms(5) by simp
    ultimately obtain e st2 where pl: "preprocess_loop w cfg kw (map fst ps) st1 = (Inl e, st2)"
      and pr: "procs st2 = procs st1"
      using preprocess_loop_missing [where kw = kw and p = p, OF assms(1-4)] by blast
    have "run_body w cfg kw st1 = (Inl e, st2)"
      using pl assms(1) by (simp add: run_body_def preprocess_params_def)
    then show ?thesis
      using run_fails_if_body_fails [where kw = kw and st = st and ?st2.0 = st2] en Inr pr fr(1)
      by fastforce
  qed
qed

theorem required_param_missing_witness:
  "c_params ex_echo = Some [(''greeting'', \<lparr>p_required = True, p_type = Some ''plain'', p_filename = None\<rparr>)]
   \<and> (Map.empty :: kwargs) ''greeting'' = None
   \<and> params_cache (init_session ex_fs) ''greeting'' = None
   \<and> get_params (ex_world [] [] 0) ex_echo Map.empty [''greeting''] (init_session ex_fs)
       = (Inl (ValueError ''Missing required param: greeting''), init_session ex_fs)
   \<and> (\<exists>e st'. run (ex_world [] [] 0) ex_echo ex_uuid Map.empty (init_session ex_fs) = (Inl e, st')
        \<and> procs st' = [])"
  using required_param_missing [of ex_echo
      "[(''greeting'', \<lparr>p_required = True, p_type = Some ''plain'', p_filename = None\<rparr>)]"
      "''greeting''" "\<lparr>p_required = True, p_type = Some ''plain'', p_filename = None\<rparr>"
      Map.empty "init_session ex_fs" "ex_world [] [] 0" ex_uuid]
  by (simp add: ex_echo_def init_session_def)

section \<open>The parameter cache\<close>

lemma get_params_loop_keep:
  "get_params_loop w cfg kw ns ret st = (r, st') \<Longrightarrow> params_cache st m = Some v \<Longrightarrow>
   params_cache st' m = Some v"
proof (induction ns arbitrary: ret st)
  case Nil
  then show ?case by simp
next
  case (Cons n ns)
  obtain r1 st1 where g: "get_param w cfg kw st n = (r1, st1)" by (cases "get_param w cfg kw st n")
  have k: "params_cache st1 m = Some v" using get_param_cache_keep [OF g Cons.prems(2)] .
  show ?case
    using Cons.prems(1) g k Cons.IH
    by (auto split: sum.splits option.splits)
qed

lemma get_params_loop_cached:
  "get_params_loop w cfg kw ns ret st = (Inr ret', st') \<Longrightarrow>
   (\<And>q u. ret q = Some u \<Longrightarrow> params_cache st q = Some u) \<Longrightarrow>
   ret' p = Some v \<Longrightarrow> params_cache st' p = Some v"
proof (induction ns arbitrary: ret st)
  case Nil
  then show ?case by simp
next
  case (Cons n ns)
  obtain r1 st1 where g: "get_param w cfg kw st n = (r1, st1)" by (cases "get_param w cfg kw st n")
  show ?case
  proof (cases r1)
    case (Inl e)
    then show ?thesis using Cons.prems(1) g by simp
  next
    case (Inr o1)
    show ?thesis
    proof (cases o1)
      case None
      have l: "get_params_loop w cfg kw ns ret st1 = (Inr ret', st')"
        using Cons.prems(1) g Inr None by simp
      have "\<And>q u. ret q = Some u \<Longrightarrow> params_cache st1 q = Some u"
        using Cons.prems(2) get_param_cache_keep [OF g] by blast
      then show ?thesis using Cons.IH [OF l _ Cons.prems(3)] by blast
    next
      case (Some x)
      have l: "get_params_loop w cfg kw ns (ret(n \<mapsto> x)) st1 = (Inr ret', st')"
        using Cons.prems(1) g Inr Some by simp
      have c: "params_cache st1 n = Some x"
        using get_param_resolved_cached g Inr Some by blast
      have "\<And>q u. (ret(n \<mapsto> x)) q = Some u \<Longrightarrow> params_cache st1 q = Some u"
        using Cons.prems(2) get_param_cache_keep [OF g] c by (auto split: if_splits)
      then show ?thesis using Cons.IH [OF l _ Cons.prems(3)] by blast
    qed
  qed
qed

text \<open>
  C3.  Once a call of \<open>get_params\<close> has resolved a name to a value, and whatever
  other calls of \<open>get_params\<close> came after it (with any arguments, failing or not),
  resolving the name again returns the same value and leaves the whole state as it
  is, the file system and the trace of written files included, and does so for any
  caller values: they are not looked at, and no file is written a second time.
\<close>

theorem resolved_twice:
  assumes "get_params w cfg kw ns st = (Inr ret, st1)" and "ret p = Some v"
    and "get_params w cfg kw2 ns2 st1 = (r2, st2)"
  shows "get_params w cfg kw3 [p] st2 = (Inr [p \<mapsto> v], st2)"
proof -
  have "params_cache st1 p = Some v"
    using get_params_loop_cached [where ret = Map.empty and p = p] assms(1,2)
    by (simp add: get_params_def)
  then have "params_cache st2 p = Some v"
    using get_params_loop_keep [of w cfg kw2 ns2 Map.empty st1 r2 st2 p v] assms(3)
    by (simp add: get_params_def)
  then show ?thesis by (simp add: get_params_single get_param_hit)
qed

section \<open>File parameters\<close>

lemma walk_not_ValueError: "walk f d cs \<noteq> Inl (ValueError msg)"
  by (induction f d cs rule: walk.induct) (auto split: option.splits node.splits)

lemma open_wb_not_ValueError: "open_wb w f s \<noteq> Inl (ValueError msg)"
  using walk_not_ValueError
  by (auto simp: open_wb_def resolve_def split: sum.splits)

lemma get_job_file_path_not_ValueError: "get_job_file_path w cfg st fn \<noteq> Inl (ValueError msg)"
  by (auto simp: get_job_file_path_def get_job_path_def split: sum.splits option.splits)

lemma file_bytes_not_ValueError: "file_bytes v \<noteq> Inl (ValueError msg)"
  by (auto simp: file_bytes_def split: pyval.splits)

lemma get_param_not_ValueError:
  assumes "kw p = Some v" and "v \<noteq> PNone"
  shows "fst (get_param w cfg kw st p) \<noteq> Inl (ValueError msg)"
proof (cases "params_cache st p")
  case (Some u)
  then show ?thesis by (simp add: get_param_def)
next
  case None
  note c = None
  show ?thesis
  proof (cases "map_of (case c_params cfg of Some ps \<Rightarrow> ps | None \<Rightarrow> []) p")
    case None
    then show ?thesis using c assms by (simp add: get_param_def)
  next
    case (Some pc)
    show ?thesis
    proof (cases "p_type pc = Some ''file''")
      case False
      then show ?thesis using c Some assms by (simp add: get_param_def)
    next
      case True
      define fname where "fname = (case p_filename pc of Some f \<Rightarrow> if f \<noteq> [] then f else p | None \<Rightarrow> p)"
      show ?thesis
      proof (cases "get_job_file_path w cfg st fname")
        case (Inl e)
        then show ?thesis
          using c Some assms True get_job_file_path_not_ValueError [of w cfg st fname msg]
          by (simp add: get_param_def fname_def)
      next
        case (Inr fp)
        note j = Inr
        show ?thesis
        proof (cases "open_wb w (fsys st) fp")
          case (Inl e)
          then show ?thesis
            using c Some assms True j open_wb_not_ValueError [of w "fsys st" fp msg]
            by (simp add: get_param_def fname_def)
        next
          case (Inr tf)
          obtain target f1 where tf: "tf = (target, f1)" by (cases tf)
          show ?thesis
            using c Some assms True j Inr tf file_bytes_not_ValueError [of v msg]
            by (cases "file_bytes v") (simp_all add: get_param_def fname_def Let_def)
        qed
      qed
    qed
  qed
qed

lemma get_param_file:
  assumes "c_params cfg = Some ps" and "map_of ps p = Some pc" and "p_type pc = Some ''file''"
    and "params_cache st p = None"
    and "\<not> (p_required pc \<and> (kw p = None \<or> kw p = Some PNone))"
    and "file_bytes (case kw p of Some v \<Rightarrow> v | None \<Rightarrow> PNone) = Inr content"
    and "fname = (case p_filename pc of Some f \<Rightarrow> if f \<noteq> [] then f else p | None \<Rightarrow> p)"
    and "get_job_path w cfg st = Inr jp"
    and "resolve w (fsys st) (jp @ ''/'' @ fname) = Inr target"
    and "\<not> is_dir (fsys st) target"
  shows "get_param w cfg kw st p =
           (Inr (Some (PStr fname)),
            st\<lparr>fsys := (fsys st)(target \<mapsto> File content),
               params_cache := (params_cache st)(p \<mapsto> PStr fname),
               writes := writes st @ [(target, content)]\<rparr>)"
  using assms
  by (auto simp: get_param_def Let_def get_job_file_path_def open_wb_def split: option.splits)

lemma ex_job_path:
  "get_job_path (ex_world out err rc) ex_upload ex_session = Inr ''/work/1b4e28ba-2fa1-41d2-883f-0016d3cca427''"
  by (simp add: get_job_path_def ex_upload_def ex_session_def ex_uuid_def rstrip_slash_def init_session_def)

lemma ex_resolve_input:
  "resolve (ex_world out err rc) ex_job_fs ''/work/1b4e28ba-2fa1-41d2-883f-0016d3cca427/input.txt''
     = Inr [''work'', ''1b4e28ba-2fa1-41d2-883f-0016d3cca427'', ''input.txt'']"
  by (simp add: resolve_def ex_world_def ex_job_fs_def ex_fs_def ex_uuid_def is_dir_def)

text \<open>
  C4.  A declared parameter of type \<open>file\<close> that is not yet resolved, with a caller's
  value that is bytes, a string or missing (and not both required and missing): when
  the job's path is defined and \<open><job path>/<filename>\<close> can be opened for writing,
  \<open>get_params\<close> writes the caller's bytes there (nothing for a missing value), with
  \<open>filename\<close> the configured file name or else the parameter's name, and the resolved
  and cached value is that file name, not the bytes.
\<close>

theorem file_param_written:
  assumes "c_params cfg = Some ps" and "map_of ps p = Some pc" and "p_type pc = Some ''file''"
    and "params_cache st p = None"
    and "\<not> (p_required pc \<and> (kw p = None \<or> kw p = Some PNone))"
    and "\<forall>i. kw p \<noteq> Some (PInt i)" and "\<forall>b. kw p \<noteq> Some (PBool b)"
    and "fname = (case p_filename pc of Some f \<Rightarrow> if f \<noteq> [] then f else p | None \<Rightarrow> p)"
    and "content = (case kw p of Some (PBytes b) \<Rightarrow> b | Some (PStr s) \<Rightarrow> s | _ \<Rightarrow> [])"
    and "get_job_path w cfg st = Inr jp"
    and "resolve w (fsys st) (jp @ ''/'' @ fname) = Inr target"
    and "\<not> is_dir (fsys st) target"
  shows "get_params w cfg kw [p] st =
           (Inr [p \<mapsto> PStr fname],
            st\<lparr>fsys := (fsys st)(target \<mapsto> File content),
               params_cache := (params_cache st)(p \<mapsto> PStr fname),
               writes := writes st @ [(target, content)]\<rparr>)"
proof -
  have "file_bytes (case kw p of Some v \<Rightarrow> v | None \<Rightarrow> PNone) = Inr content"
    using assms(6,7,9) by (auto simp: file_bytes_def split: option.splits pyval.splits)
  from get_param_file [where kw = kw and p = p, OF assms(1-5) this assms(8,10,11,12)]
  show ?thesis by (simp add: get_params_single)
qed

theorem file_param_written_witness:
  "get_params (ex_world [] [] 0) ex_upload [''input'' \<mapsto> PBytes ''hello''] [''input''] ex_session =
     (Inr [''input'' \<mapsto> PStr ''input.txt''],
      ex_session\<lparr>fsys := (fsys ex_session)([''work'', ex_uuid, ''input.txt''] \<mapsto> File ''hello''),
        params_cache := (params_cache ex_session)(''input'' \<mapsto> PStr ''input.txt''),
        writes := writes ex_session @ [([''work'', ex_uuid, ''input.txt''], ''hello'')]\<rparr>)"
  using file_param_written [of ex_upload
      "[(''input'', \<lparr>p_required = True, p_type = Some ''file'', p_filename = Some ''input.txt''\<rparr>)]"
      "''input''" "\<lparr>p_required = True, p_type = Some ''file'', p_filename = Some ''input.txt''\<rparr>"
      ex_session "[''input'' \<mapsto> PBytes ''hello'']" "''input.txt''" "''hello''"
      "ex_world [] [] 0" "''/work/1b4e28ba-2fa1-41d2-883f-0016d3cca427''"
      "[''work'', ex_uuid, ''input.txt'']"]
    ex_job_path [of "[]" "[]" 0] ex_resolve_input [of "[]" "[]" 0]
  by (simp add: ex_upload_def ex_session_def init_session_def ex_job_fs_def ex_fs_def is_dir_def ex_uuid_def)

section \<open>Resolving again, and values that are empty or missing\<close>

lemma ex_upload_first:
  "get_params (ex_world [] [] 0) ex_upload [''input'' \<mapsto> PBytes ''hello''] [''input''] ex_session =
     (Inr [''input'' \<mapsto> PStr ''input.txt''],
      ex_session\<lparr>fsys := (fsys ex_session)([''work'', ex_uuid, ''input.txt''] \<mapsto> File ''hello''),
        params_cache := (params_cache ex_session)(''input'' \<mapsto> PStr ''input.txt''),
        writes := writes ex_session @ [([''work'', ex_uuid, ''input.txt''], ''hello'')]\<rparr>)"
  using get_param_file [of ex_upload
      "[(''input'', \<lparr>p_required = True, p_type = Some ''file'', p_filename = Some ''input.txt''\<rparr>)]"
      "''input''" "\<lparr>p_required = True, p_type = Some ''file'', p_filename = Some ''input.txt''\<rparr>"
      ex_session "[''input'' \<mapsto> PBytes ''hello'']" "''hello''" "''input.txt''"
      "ex_world [] [] 0" "''/work/1b4e28ba-2fa1-41d2-883f-0016d3cca427''"
      "[''work'', ex_uuid, ''input.txt'']"]
    ex_job_path [of "[]" "[]" 0] ex_resolve_input [of "[]" "[]" 0]
  by (simp add: get_params_single file_bytes_def ex_upload_def ex_session_def init_session_def
      ex_job_fs_def ex_fs_def is_dir_def ex_uuid_def)

theorem resolved_twice_witness:
  "fst (get_params (ex_world [] [] 0) ex_upload [''input'' \<mapsto> PBytes ''hello''] [''input''] ex_session)
     = Inr [''input'' \<mapsto> PStr ''input.txt'']
   \<and> get_params (ex_world [] [] 0) ex_upload [''input'' \<mapsto> PBytes ''other''] [''input'']
        (snd (get_params (ex_world [] [] 0) ex_upload [''input'' \<mapsto> PBytes ''hello''] [''input''] ex_session))
     = (Inr [''input'' \<mapsto> PStr ''input.txt''],
        snd (get_params (ex_world [] [] 0) ex_upload [''input'' \<mapsto> PBytes ''hello''] [''input''] ex_session))"
proof -
  let ?g = "get_params (ex_world [] [] 0) ex_upload [''input'' \<mapsto> PBytes ''hello''] [''input''] ex_session"
  have f: "?g = (Inr [''input'' \<mapsto> PStr ''input.txt''], snd ?g)"
    using ex_upload_first by simp
  have a: "fst ?g = Inr [''input'' \<mapsto> PStr ''input.txt'']"
    using f by (metis fst_conv)
  have e: "get_params (ex_world [] [] 0) ex_upload Map.empty [] (snd ?g) = (Inr Map.empty, snd ?g)"
    by (simp add: get_params_def)
  have i: "[''input'' \<mapsto> PStr ''input.txt''] ''input'' = Some (PStr ''input.txt'')"
    by simp
  from a resolved_twice [OF f i e, of "[''input'' \<mapsto> PBytes ''other'']"]
  show ?thesis by (rule conjI)
qed

text \<open>
  C10.  A declared required parameter, not yet resolved, for which the caller gives
  the empty string or empty bytes: \<open>get_params\<close> does not raise the
  \<open>ValueError\<close> of a missing parameter; a parameter that is not of type \<open>file\<close>
  resolves to the empty value itself; a parameter of type \<open>file\<close> whose file can be
  opened for writing gets an empty file and resolves to the file's name.
\<close>

theorem empty_value_satisfies_required:
  assumes "c_params cfg = Some ps" and "map_of ps p = Some pc" and "p_required pc"
    and "params_cache st p = None" and "kw p = Some v" and "v = PStr [] \<or> v = PBytes []"
    and "fname = (case p_filename pc of Some f \<Rightarrow> if f \<noteq> [] then f else p | None \<Rightarrow> p)"
  shows "(\<forall>msg. fst (get_params w cfg kw [p] st) \<noteq> Inl (ValueError msg))
       \<and> (p_type pc \<noteq> Some ''file'' \<longrightarrow>
            get_params w cfg kw [p] st =
              (Inr [p \<mapsto> v], st\<lparr>params_cache := (params_cache st)(p \<mapsto> v)\<rparr>))
       \<and> (p_type pc = Some ''file'' \<longrightarrow> get_job_path w cfg st = Inr jp \<longrightarrow>
            resolve w (fsys st) (jp @ ''/'' @ fname) = Inr target \<longrightarrow> \<not> is_dir (fsys st) target \<longrightarrow>
            get_params w cfg kw [p] st =
              (Inr [p \<mapsto> PStr fname],
               st\<lparr>fsys := (fsys st)(target \<mapsto> File []),
                  params_cache := (params_cache st)(p \<mapsto> PStr fname),
                  writes := writes st @ [(target, [])]\<rparr>))"
proof (intro conjI allI impI)
  fix msg
  have "v \<noteq> PNone" using assms(6) by auto
  from get_param_not_ValueError [where kw = kw and p = p, OF assms(5) this, of w cfg st msg]
  show "fst (get_params w cfg kw [p] st) \<noteq> Inl (ValueError msg)"
    by (auto simp: get_params_single split: prod.splits sum.splits option.splits)
next
  assume "p_type pc \<noteq> Some ''file''"
  then show "get_params w cfg kw [p] st =
      (Inr [p \<mapsto> v], st\<lparr>params_cache := (params_cache st)(p \<mapsto> v)\<rparr>)"
    using assms by (auto simp: get_params_single get_param_def)
next
  assume t: "p_type pc = Some ''file''" and j: "get_job_path w cfg st = Inr jp"
    and r: "resolve w (fsys st) (jp @ ''/'' @ fname) = Inr target" and d: "\<not> is_dir (fsys st) target"
  have n: "\<not> (p_required pc \<and> (kw p = None \<or> kw p = Some PNone))" using assms(5,6) by auto
  have b: "file_bytes (case kw p of Some v \<Rightarrow> v | None \<Rightarrow> PNone) = Inr []"
    using assms(5,6) by (auto simp: file_bytes_def)
  from get_param_file [where kw = kw and p = p, OF assms(1,2) t assms(4) n b assms(7) j r d]
  show "get_params w cfg kw [p] st =
      (Inr [p \<mapsto> PStr fname],
       st\<lparr>fsys := (fsys st)(target \<mapsto> File []),
          params_cache := (params_cache st)(p \<mapsto> PStr fname),
          writes := writes st @ [(target, [])]\<rparr>)"
    by (simp add: get_params_single)
qed

theorem empty_value_satisfies_required_witness:
  "get_params (ex_world [] [] 0) ex_upload [''input'' \<mapsto> PBytes []] [''input''] ex_session =
     (Inr [''input'' \<mapsto> PStr ''input.txt''],
      ex_session\<lparr>fsys := (fsys ex_session)([''work'', ex_uuid, ''input.txt''] \<mapsto> File []),
        params_cache := (params_cache ex_session)(''input'' \<mapsto> PStr ''input.txt''),
        writes := writes ex_session @ [([''work'', ex_uuid, ''input.txt''], [])]\<rparr>)
   \<and> get_params (ex_world [] [] 0) ex_echo [''greeting'' \<mapsto> PStr []] [''greeting''] ex_session =
     (Inr [''greeting'' \<mapsto> PStr []],
      ex_session\<lparr>params_cache := (params_cache ex_session)(''greeting'' \<mapsto> PStr [])\<rparr>)"
  using empty_value_satisfies_required [of ex_upload
      "[(''input'', \<lparr>p_required = True, p_type = Some ''file'', p_filename = Some ''input.txt''\<rparr>)]"
      "''input''" "\<lparr>p_required = True, p_type = Some ''file'', p_filename = Some ''input.txt''\<rparr>"
      ex_session "[''input'' \<mapsto> PBytes []]" "PBytes []" "''input.txt''"
      "ex_world [] [] 0" "''/work/1b4e28ba-2fa1-41d2-883f-0016d3cca427''"
      "[''work'', ex_uuid, ''input.txt'']"]
    empty_value_satisfies_required [of ex_echo
      "[(''greeting'', \<lparr>p_required = True, p_type = Some ''plain'', p_filename = None\<rparr>)]"
      "''greeting''" "\<lparr>p_required = True, p_type = Some ''plain'', p_filename = None\<rparr>"
      ex_session "[''greeting'' \<mapsto> PStr []]" "PStr []" "''greeting''"
      "ex_world [] [] 0"]
    ex_job_path [of "[]" "[]" 0] ex_resolve_input [of "[]" "[]" 0]
  by (simp add: ex_upload_def ex_echo_def ex_session_def init_session_def ex_job_fs_def ex_fs_def is_dir_def ex_uuid_def)

text \<open>
  C8.  What the code does for a declared parameter of type \<open>plain\<close> that is not
  required and has no caller's value: it resolves to \<open>None\<close>, not to the empty
  string, and \<open>echo $name\<close> is rendered as \<open>echo None\<close>.
\<close>

theorem optional_plain_absent:
  "get_params (ex_world [] [] 0) ex_optional Map.empty [''name''] ex_session =
     (Inr [''name'' \<mapsto> PNone], ex_session\<lparr>params_cache := (params_cache ex_session)(''name'' \<mapsto> PNone)\<rparr>)
   \<and> fst (prepare_cmd (ex_world [] [] 0) ex_optional Map.empty ex_session) = Inr ''echo None''"
  by (simp add: get_params_single get_param_def prepare_cmd_def process_input_item_def get_identifiers_def
      safe_substitute_def match_dollar_def idstart_def idchar_def in_range_def
      get_params_def get_job_path_def rstrip_slash_def
      ex_optional_def ex_session_def init_session_def ex_world_def ex_uuid_def)

section \<open>The subprocess and its log record\<close>

lemma run_subprocess_logs_once:
  assumes "get_job_path w cfg st = Inr jp" and "subprocess_shell w cmd jp (fsys st) = Some p"
    and "utf8_ok (map of_char (p_stderr p))"
  shows "run_subprocess w cfg cmd st =
           (Inr p,
            st\<lparr>fsys := p_fs p, procs := procs st @ [cmd],
               logs := logs st @
                 [ExecLog (job_id st) (p_returncode p) (p_end_time p - p_begin_time p) (p_stderr p)]\<rparr>)"
  using assms by (simp add: run_subprocess_def decode_utf8_def Let_def)

text \<open>
  C7.  What the code does when the subprocess writes a byte that is not UTF-8 to its
  standard error and exits with code 0: \<open>stderr.decode('utf-8')\<close> raises before
  \<open>util.json_log_info\<close> is called, so \<open>execute\<close> ends in \<open>UnicodeDecodeError\<close> after
  the subprocess has run, and no record has been logged.
\<close>

theorem undecodable_stderr:
  "run_subprocess (ex_world ''hi'' [CHR 0xFF] 0) ex_echo ''echo hi'' ex_session =
     (Inl UnicodeDecodeError, ex_session\<lparr>procs := [''echo hi'']\<rparr>)
   \<and> logs (snd (execute (ex_world ''hi'' [CHR 0xFF] 0) ex_echo ''echo hi'' ex_session)) = []
   \<and> fst (execute (ex_world ''hi'' [CHR 0xFF] 0) ex_echo ''echo hi'' ex_session) = Inl UnicodeDecodeError"
  by (simp add: execute_def run_subprocess_def decode_utf8_def get_job_path_def ex_world_def ex_echo_def
      ex_session_def init_session_def Let_def)

section \<open>A missing required parameter and the files written before it\<close>

lemma get_param_plain:
  assumes "c_params cfg = Some ps" and "map_of ps n = Some c" and "p_type c \<noteq> Some ''file''"
    and "\<not> (p_required c \<and> (kw n = None \<or> kw n = Some PNone))"
  shows "\<exists>v st'. get_param w cfg kw st n = (Inr (Some v), st') \<and> fsys st' = fsys st
           \<and> writes st' = writes st \<and> procs st' = procs st \<and> job_id st' = job_id st
           \<and> (\<forall>m. m \<noteq> n \<longrightarrow> params_cache st' m = params_cache st m)"
proof (cases "params_cache st n")
  case None
  then show ?thesis using assms by (auto simp: get_param_def Let_def)
next
  case (Some u)
  then show ?thesis by (simp add: get_param_def)
qed

lemma preprocess_loop_reaches_missing:
  assumes "c_params cfg = Some ps" and "map_of ps p = Some pc" and "p_required pc"
    and "kw p = None \<or> kw p = Some PNone"
  shows "(\<forall>n \<in> set names. n \<noteq> p \<and> (\<exists>c. map_of ps n = Some c \<and> p_type c \<noteq> Some ''file''
            \<and> \<not> (p_required c \<and> (kw n = None \<or> kw n = Some PNone)))) \<Longrightarrow>
         params_cache st p = None \<Longrightarrow>
         \<exists>st2. preprocess_loop w cfg kw (names @ p # rest) st
                  = (Inl (ValueError (''Missing required param: '' @ p)), st2)
           \<and> fsys st2 = fsys st \<and> writes st2 = writes st \<and> procs st2 = procs st
           \<and> job_id st2 = job_id st"
proof (induction names arbitrary: st)
  case Nil
  then show ?case
    using get_params_single_missing [where kw = kw and p = p, OF assms(1-3) Nil.prems(2) assms(4), of w]
    by simp
next
  case (Cons n ns)
  from Cons.prems(1) obtain c where np: "n \<noteq> p" and c: "map_of ps n = Some c"
    "p_type c \<noteq> Some ''file''" "\<not> (p_required c \<and> (kw n = None \<or> kw n = Some PNone))"
    by auto
  from get_param_plain [where kw = kw and n = n, OF assms(1) c, of w st]
  obtain v st1 where g: "get_param w cfg kw st n = (Inr (Some v), st1)"
    and fr: "fsys st1 = fsys st" "writes st1 = writes st" "procs st1 = procs st" "job_id st1 = job_id st"
    and oth: "\<forall>m. m \<noteq> n \<longrightarrow> params_cache st1 m = params_cache st m"
    by blast
  have "params_cache st1 p = None" using oth np Cons.prems(2) by simp
  moreover have "\<forall>n \<in> set ns. n \<noteq> p \<and> (\<exists>c. map_of ps n = Some c \<and> p_type c \<noteq> Some ''file''
            \<and> \<not> (p_required c \<and> (kw n = None \<or> kw n = Some PNone)))"
    using Cons.prems(1) by simp
  ultimately obtain st2 where
    "preprocess_loop w cfg kw (ns @ p # rest) st1 = (Inl (ValueError (''Missing required param: '' @ p)), st2)"
    "fsys st2 = fsys st1" "writes st2 = writes st1" "procs st2 = procs st1" "job_id st2 = job_id st1"
    using Cons.IH by blast
  then show ?case using g fr by (simp add: get_params_single)
qed

lemma get_job_path_cong:
  "job_id st' = job_id st \<Longrightarrow> get_job_path w cfg st' = get_job_path w cfg st"
  by (auto simp: get_job_path_def split: option.splits)

text \<open>
  C9, as amended.  The declared parameters are resolved in their order of
  declaration.  Let \<open>p\<close> be a required parameter without a caller's value, and let
  every parameter declared before it be of another type than \<open>file\<close> and not itself
  required and missing.  Then, in a fresh session whose job directory could be
  created, the run raises the \<open>ValueError\<close> that names \<open>p\<close>; at that point the file
  system is as \<open>os.makedirs\<close> left it, no file has been written and no subprocess
  has been started.
\<close>

theorem missing_required_before_any_file:
  assumes "c_params cfg = Some (pre @ (p, pc) # post)"
    and "distinct (map fst (pre @ (p, pc) # post))"
    and "p_required pc" and "kw p = None \<or> kw p = Some PNone"
    and "\<forall>(n, c) \<in> set pre. p_type c \<noteq> Some ''file''
           \<and> \<not> (p_required c \<and> (kw n = None \<or> kw n = Some PNone))"
    and "params_cache st p = None"
    and "get_job_path w cfg (st\<lparr>job_id := Some uuid\<rparr>) = Inr jp"
    and "makedirs w (fsys st) jp = Inr f1"
  shows "\<exists>st2. run_body w cfg kw (st\<lparr>job_id := Some uuid, fsys := f1\<rparr>)
                 = (Inl (ValueError (''Missing required param: '' @ p)), st2)
           \<and> fsys st2 = f1 \<and> writes st2 = writes st \<and> procs st2 = procs st
           \<and> fst (run w cfg uuid kw st) = Inl (ValueError (''Missing required param: '' @ p))
           \<and> writes (snd (run w cfg uuid kw st)) = writes st
           \<and> procs (snd (run w cfg uuid kw st)) = procs st"
proof -
  let ?ps = "pre @ (p, pc) # post"
  let ?st1 = "st\<lparr>job_id := Some uuid, fsys := f1\<rparr>"
  have mp: "map_of ?ps p = Some pc"
    using assms(2) by (intro map_of_is_SomeI) auto
  have pre: "\<forall>n \<in> set (map fst pre). n \<noteq> p \<and> (\<exists>c. map_of ?ps n = Some c \<and> p_type c \<noteq> Some ''file''
            \<and> \<not> (p_required c \<and> (kw n = None \<or> kw n = Some PNone)))"
  proof
    fix n assume "n \<in> set (map fst pre)"
    then obtain c where nc: "(n, c) \<in> set pre" by auto
    then have "map_of ?ps n = Some c" using assms(2) by (intro map_of_is_SomeI) auto
    moreover have "n \<noteq> p" using nc assms(2) by (auto simp: rev_image_eqI)
    ultimately show "n \<noteq> p \<and> (\<exists>c. map_of ?ps n = Some c \<and> p_type c \<noteq> Some ''file''
            \<and> \<not> (p_required c \<and> (kw n = None \<or> kw n = Some PNone)))"
      using assms(5) nc by auto
  qed
  have c1: "params_cache ?st1 p = None" using assms(6) by simp
  from preprocess_loop_reaches_missing [where kw = kw and p = p and names = "map fst pre"
      and rest = "map fst post" and st = ?st1 and w = w, OF assms(1) mp assms(3,4) pre c1]
  obtain st2 where pl: "preprocess_loop w cfg kw (map fst pre @ p # map fst post) ?st1
                  = (Inl (ValueError (''Missing required param: '' @ p)), st2)"
    and fr: "fsys st2 = fsys ?st1" "writes st2 = writes ?st1" "procs st2 = procs ?st1"
      "job_id st2 = job_id ?st1"
    by blast
  have rb: "run_body w cfg kw ?st1 = (Inl (ValueError (''Missing required param: '' @ p)), st2)"
    using pl assms(1) by (simp add: run_body_def preprocess_params_def)
  have en: "ensure_job_path w cfg (st\<lparr>job_id := Some uuid\<rparr>) = (Inr (), ?st1)"
    using assms(7,8) by (simp add: ensure_job_path_def)
  have "get_job_path w cfg st2 = Inr jp"
    using get_job_path_cong [of st2 "st\<lparr>job_id := Some uuid\<rparr>" w cfg] fr(4) assms(7) by simp
  then have cl: "clean_job_path w cfg st2 = (Inr (), st2\<lparr>fsys := rmtree w (fsys st2) jp\<rparr>)"
    by (simp add: clean_job_path_def)
  have r: "run w cfg uuid kw st =
      (Inl (ValueError (''Missing required param: '' @ p)),
       st2\<lparr>fsys := rmtree w (fsys st2) jp, job_id := None\<rparr>)"
    using en rb cl by (simp add: run_def)
  show ?thesis using rb fr r by auto
qed

theorem missing_required_before_any_file_witness:
  "fst (run (ex_world [] [] 0) ex_named ex_uuid [''name'' \<mapsto> PStr ''Ada''] (init_session ex_fs))
     = Inl (ValueError ''Missing required param: greeting'')
   \<and> writes (snd (run (ex_world [] [] 0) ex_named ex_uuid [''name'' \<mapsto> PStr ''Ada''] (init_session ex_fs))) = []
   \<and> procs (snd (run (ex_world [] [] 0) ex_named ex_uuid [''name'' \<mapsto> PStr ''Ada''] (init_session ex_fs))) = []"
proof -
  let ?pn = "\<lparr>p_required = False, p_type = Some ''plain'', p_filename = None\<rparr>"
  let ?pc = "\<lparr>p_required = True, p_type = Some ''plain'', p_filename = None\<rparr>"
  let ?kw = "[''name'' \<mapsto> PStr ''Ada'']"
  let ?r = "run (ex_world [] [] 0) ex_named ex_uuid ?kw (init_session ex_fs)"
  have m: "makedirs (ex_world [] [] 0) (fsys (init_session ex_fs)) ''/work/1b4e28ba-2fa1-41d2-883f-0016d3cca427''
         = Inr ex_job_fs"
    by (simp add: makedirs_def init_session_def ex_fs_def ex_job_fs_def ex_uuid_def)
  have j: "get_job_path (ex_world [] [] 0) ex_named ((init_session ex_fs)\<lparr>job_id := Some ex_uuid\<rparr>)
         = Inr ''/work/1b4e28ba-2fa1-41d2-883f-0016d3cca427''"
    by (simp add: get_job_path_def ex_named_def ex_uuid_def rstrip_slash_def)
  have h1: "c_params ex_named = Some ([(''name'', ?pn)] @ (''greeting'', ?pc) # [])"
    by (simp add: ex_named_def)
  have h2: "distinct (map fst ([(''name'', ?pn)] @ (''greeting'', ?pc) # []))" by simp
  have h3: "p_required ?pc" by simp
  have h4: "?kw ''greeting'' = None \<or> ?kw ''greeting'' = Some PNone" by simp
  have h5: "\<forall>(n, c) \<in> set [(''name'', ?pn)]. p_type c \<noteq> Some ''file''
           \<and> \<not> (p_required c \<and> (?kw n = None \<or> ?kw n = Some PNone))"
    by simp
  have h6: "params_cache (init_session ex_fs) ''greeting'' = None" by (simp add: init_session_def)
  from missing_required_before_any_file [where kw = ?kw, OF h1 h2 h3 h4 h5 h6 j m]
  have "fst ?r = Inl (ValueError (''Missing required param: '' @ ''greeting''))
      \<and> writes (snd ?r) = writes (init_session ex_fs) \<and> procs (snd ?r) = procs (init_session ex_fs)"
    by blast
  moreover have "writes (init_session ex_fs) = []" and "procs (init_session ex_fs) = []"
    by (simp_all add: init_session_def)
  ultimately show ?thesis by simp
qed

text \<open>
  C9, as stated, fails: with a parameter of type \<open>file\<close> declared before the
  required parameter that is missing, the file has been written when the
  \<open>ValueError\<close> is raised.
\<close>

theorem file_written_before_missing_required:
  "fst (run (ex_world [] [] 0) ex_two ex_uuid [''data'' \<mapsto> PBytes ''hello''] (init_session ex_fs))
     = Inl (ValueError ''Missing required param: mode'')
   \<and> writes (snd (run (ex_world [] [] 0) ex_two ex_uuid [''data'' \<mapsto> PBytes ''hello''] (init_session ex_fs)))
     = [([''work'', ''1b4e28ba-2fa1-41d2-883f-0016d3cca427'', ''data''], ''hello'')]"
  by (simp add: run_def ensure_job_path_def clean_job_path_def run_body_def preprocess_params_def
      get_params_single get_param_def get_job_file_path_def get_job_path_def open_wb_def resolve_def
      makedirs_def file_bytes_def is_dir_def rstrip_slash_def Let_def
      ex_two_def ex_world_def ex_fs_def ex_uuid_def init_session_def)

section \<open>Template substitution\<close>

lemma idstart_not_dollar: "idstart c \<Longrightarrow> c \<noteq> CHR ''$''"
  by (auto simp: idstart_def in_range_def)

lemma brace_not_id: "\<not> idstart (CHR ''{'')" "\<not> idchar (CHR ''}'')" "\<not> idchar (CHR ''{'')"
  by (simp_all add: idstart_def idchar_def in_range_def)

lemma takeWhile_id:
  assumes "list_all idchar n" and "r = [] \<or> \<not> idchar (hd r)"
  shows "takeWhile idchar (n @ r) = n" and "dropWhile idchar (n @ r) = r"
proof -
  have a: "\<And>x. x \<in> set n \<Longrightarrow> idchar x" using assms(1) by (simp add: list_all_iff)
  have t: "takeWhile idchar r = []" and d: "dropWhile idchar r = r"
    using assms(2) by (cases r; simp)+
  show "takeWhile idchar (n @ r) = n" using takeWhile_append2 [of n idchar r] a t by simp
  show "dropWhile idchar (n @ r) = r" using dropWhile_append2 [of n idchar r] a d by simp
qed

lemma match_dollar_named:
  assumes "is_identifier n" and "r = [] \<or> \<not> idchar (hd r)"
  shows "match_dollar (n @ r) = (Named n, r)"
proof -
  obtain a n' where n: "n = a # n'" using assms(1) by (cases n) (auto simp: is_identifier_def)
  have s: "idstart a" and l: "list_all idchar n" using assms(1) n by (auto simp: is_identifier_def)
  show ?thesis
    using takeWhile_id [OF l assms(2)] s idstart_not_dollar [OF s] n
    by (simp add: match_dollar_def)
qed

lemma match_dollar_braced:
  assumes "is_identifier n"
  shows "match_dollar (''{'' @ n @ ''}'' @ r) = (Braced n, r)"
proof -
  obtain a n' where n: "n = a # n'" using assms(1) by (cases n) (auto simp: is_identifier_def)
  have s: "idstart a" and l: "list_all idchar n" using assms(1) n by (auto simp: is_identifier_def)
  have "takeWhile idchar (n @ CHR ''}'' # r) = n" "dropWhile idchar (n @ CHR ''}'' # r) = CHR ''}'' # r"
    using takeWhile_id [OF l, of "CHR ''}'' # r"] brace_not_id by simp_all
  then show ?thesis
    using s n brace_not_id by (simp add: match_dollar_def)
qed

lemma match_dollar_text: "match_dollar cs = (s, rest) \<Longrightarrow> seg_text s @ rest = CHR ''$'' # cs"
proof (cases cs)
  case Nil
  assume "match_dollar cs = (s, rest)"
  then show ?thesis using Nil by (auto simp: match_dollar_def)
next
  case (Cons c r')
  assume m: "match_dollar cs = (s, rest)"
  have td: "takeWhile idchar r' @ dropWhile idchar r' = r'" by simp
  show ?thesis
  proof (cases "c = CHR ''$''")
    case True
    then show ?thesis using m Cons by (auto simp: match_dollar_def)
  next
    case False
    note nd = False
    show ?thesis
    proof (cases "idstart c")
      case True
      then show ?thesis using m Cons nd
        by (auto simp: match_dollar_def simp del: takeWhile.simps dropWhile.simps)
    next
      case False
      show ?thesis
      proof (cases "c = CHR ''{''")
        case False
        then show ?thesis using m Cons nd \<open>\<not> idstart c\<close> by (auto simp: match_dollar_def)
      next
        case True
        show ?thesis
        proof (cases "\<exists>a x t'. takeWhile idchar r' = a # x \<and> dropWhile idchar r' = CHR ''}'' # t' \<and> idstart a")
          case True
          then obtain a x t' where e: "takeWhile idchar r' = a # x" "dropWhile idchar r' = CHR ''}'' # t'" "idstart a"
            by blast
          have "s = Braced (a # x)" "rest = t'"
            using m Cons nd \<open>\<not> idstart c\<close> \<open>c = CHR ''{''\<close> e by (auto simp: match_dollar_def Let_def)
          moreover have "r' = (a # x) @ CHR ''}'' # t'" using td e by simp
          ultimately show ?thesis using Cons \<open>c = CHR ''{''\<close> by simp
        next
          case False
          then have "s = Invalid" "rest = cs"
            using m Cons nd \<open>\<not> idstart c\<close> \<open>c = CHR ''{''\<close>
            by (auto simp: match_dollar_def Let_def split: list.splits if_splits)
          then show ?thesis by simp
        qed
      qed
    qed
  qed
qed

lemma scan_tiles: "concat (map seg_text (scan t)) = t"
proof (induction t rule: scan.induct)
  case 1
  then show ?case by simp
next
  case (2 c cs)
  show ?case
  proof (cases "c = CHR ''$''")
    case True
    obtain s rest where m: "match_dollar cs = (s, rest)" by (cases "match_dollar cs")
    have "concat (map seg_text (scan rest)) = rest" using 2(1) [OF True m [symmetric]] by simp
    then show ?thesis using True m match_dollar_text [OF m] by simp
  next
    case False
    then show ?thesis using 2(2) by simp
  qed
qed

lemma foldl_add_id_mono: "set ids \<subseteq> set (foldl add_id ids ss)"
proof (induction ss arbitrary: ids)
  case Nil
  then show ?case by simp
next
  case (Cons s ss)
  have "set ids \<subseteq> set (add_id ids s)" by (cases s) auto
  then show ?case using Cons [of "add_id ids s"] by auto
qed

lemma foldl_add_id_names:
  "s \<in> set ss \<Longrightarrow> s = Named n \<or> s = Braced n \<Longrightarrow> n \<in> set (foldl add_id ids ss)"
proof (induction ss arbitrary: ids)
  case Nil
  then show ?case by simp
next
  case (Cons x ss)
  show ?case
  proof (cases "s = x")
    case True
    then have "n \<in> set (add_id ids x)" using Cons.prems(2) by auto
    then show ?thesis using foldl_add_id_mono [of "add_id ids x" ss] by auto
  next
    case False
    then show ?thesis using Cons by auto
  qed
qed

lemma convert_unresolved:
  assumes "\<forall>n. s = Named n \<or> s = Braced n \<longrightarrow> m n = None" and "s \<noteq> Escaped"
  shows "convert m s = seg_text s"
  using assms by (cases s) auto

lemma get_params_loop_unknown:
  "\<forall>x \<in> set ns. params_cache st x = None
       \<and> map_of (case c_params cfg of Some ps \<Rightarrow> ps | None \<Rightarrow> []) x = None \<and> kw x = None \<Longrightarrow>
   get_params_loop w cfg kw ns ret st = (Inr ret, st)"
  by (induction ns) (simp_all add: get_param_def)

lemma match_dollar_invalid:
  assumes "r = [] \<or> (hd r \<noteq> CHR ''$'' \<and> \<not> idstart (hd r)
             \<and> \<not> (\<exists>n r'. is_identifier n \<and> r = ''{'' @ n @ ''}'' @ r'))"
  shows "match_dollar r = (Invalid, r)"
proof (cases r)
  case Nil
  then show ?thesis by (simp add: match_dollar_def)
next
  case (Cons c r')
  then have a: "c \<noteq> CHR ''$''" "\<not> idstart c"
    and b: "\<not> (\<exists>n t. is_identifier n \<and> r = ''{'' @ n @ ''}'' @ t)"
    using assms by auto
  show ?thesis
  proof (cases "c = CHR ''{''")
    case False
    then show ?thesis using Cons a by (simp add: match_dollar_def)
  next
    case True
    have "\<not> (\<exists>x xs t'. takeWhile idchar r' = x # xs \<and> dropWhile idchar r' = CHR ''}'' # t' \<and> idstart x)"
    proof
      assume "\<exists>x xs t'. takeWhile idchar r' = x # xs \<and> dropWhile idchar r' = CHR ''}'' # t' \<and> idstart x"
      then obtain x xs t' where e: "takeWhile idchar r' = x # xs"
        "dropWhile idchar r' = CHR ''}'' # t'" "idstart x" by blast
      have "list_all idchar (takeWhile idchar r')"
        by (simp add: list_all_iff) (meson set_takeWhileD)
      then have "is_identifier (x # xs)" using e by (simp add: is_identifier_def)
      moreover have "r' = (x # xs) @ CHR ''}'' # t'"
        using takeWhile_dropWhile_id [of idchar r'] e by simp
      ultimately show False using b Cons True by auto
    qed
    then show ?thesis
      using Cons a True by (auto simp: match_dollar_def Let_def split: list.splits)
  qed
qed

lemma get_param_skipped:
  assumes "get_param w cfg kw st n = (Inr None, st')"
  shows "st' = st" and "params_cache st n = None"
  using assms
  by (auto simp: get_param_def Let_def split: option.splits sum.splits if_splits prod.splits)

lemma get_params_loop_cache_other:
  "get_params_loop w cfg kw ns ret st = (r, st') \<Longrightarrow> m \<notin> set ns \<Longrightarrow>
   params_cache st' m = params_cache st m"
proof (induction ns arbitrary: ret st)
  case Nil
  then show ?case by simp
next
  case (Cons n ns)
  obtain r1 st1 where g: "get_param w cfg kw st n = (r1, st1)" by (cases "get_param w cfg kw st n")
  have k: "params_cache st1 m = params_cache st m"
    using get_param_cache_other [OF g, of m] Cons.prems(2) by simp
  have "m \<notin> set ns" using Cons.prems(2) by simp
  then show ?case
    using Cons.prems(1) g k Cons.IH
    by (auto split: sum.splits option.splits)
qed

lemma get_params_loop_values:
  "get_params_loop w cfg kw ns ret st = (Inr ret', st') \<Longrightarrow>
   (\<And>q u. ret q = Some u \<Longrightarrow> params_cache st q = Some u) \<Longrightarrow>
   ret' m = (if m \<in> set ns then params_cache st' m else ret m)"
proof (induction ns arbitrary: ret st)
  case Nil
  then show ?case by simp
next
  case (Cons n ns)
  obtain r1 st1 where g: "get_param w cfg kw st n = (r1, st1)" by (cases "get_param w cfg kw st n")
  show ?case
  proof (cases r1)
    case (Inl e)
    then show ?thesis using Cons.prems(1) g by simp
  next
    case (Inr o1)
    show ?thesis
    proof (cases o1)
      case None
      have l: "get_params_loop w cfg kw ns ret st = (Inr ret', st')"
        using Cons.prems(1) g Inr None get_param_skipped(1) [of w cfg kw st n st1] by simp
      have c0: "params_cache st n = None"
        using g Inr None get_param_skipped(2) [of w cfg kw st n st1] by simp
      have ih: "ret' m = (if m \<in> set ns then params_cache st' m else ret m)"
        using Cons.IH [OF l Cons.prems(2)] by simp
      show ?thesis
      proof (cases "m = n \<and> n \<notin> set ns")
        case True
        have "ret n = None" using c0 Cons.prems(2) [of n] by (cases "ret n") auto
        moreover have "params_cache st' n = None"
          using get_params_loop_cache_other [OF l, of n] True c0 by simp
        ultimately show ?thesis using ih True by simp
      next
        case False
        then show ?thesis using ih by auto
      qed
    next
      case (Some x)
      have l: "get_params_loop w cfg kw ns (ret(n \<mapsto> x)) st1 = (Inr ret', st')"
        using Cons.prems(1) g Inr Some by simp
      have c: "params_cache st1 n = Some x"
        using get_param_resolved_cached g Inr Some by blast
      have p: "\<And>q u. (ret(n \<mapsto> x)) q = Some u \<Longrightarrow> params_cache st1 q = Some u"
        using Cons.prems(2) get_param_cache_keep [OF g] c by (auto split: if_splits)
      have ih: "ret' m = (if m \<in> set ns then params_cache st' m else (ret(n \<mapsto> x)) m)"
        using Cons.IH [OF l p] by simp
      have "params_cache st' n = Some x" using get_params_loop_keep [OF l c] .
      then show ?thesis using ih by auto
    qed
  qed
qed

lemma get_params_values:
  assumes "get_params w cfg kw ns st = (Inr pv, st')"
  shows "pv m = (if m \<in> set ns then params_cache st' m else None)"
  using get_params_loop_values [of w cfg kw ns Map.empty st pv st' m] assms
  by (simp add: get_params_def)

lemma scan_names_identified:
  "s \<in> set (scan t) \<Longrightarrow> s = Named n \<or> s = Braced n \<Longrightarrow> n \<in> set (get_identifiers t)"
  using foldl_add_id_names [of s "scan t" n "[]"] by (simp add: get_identifiers_def)

lemma convert_agree:
  assumes "\<And>n. s = Named n \<or> s = Braced n \<Longrightarrow> m n = m' n"
  shows "convert m s = convert m' s"
  using assms by (cases s) auto

lemma safe_substitute_agree:
  assumes "\<And>n. n \<in> set (get_identifiers t) \<Longrightarrow> m n = m' n"
  shows "safe_substitute m t = safe_substitute m' t"
proof -
  have "map (convert m) (scan t) = map (convert m') (scan t)"
    using assms scan_names_identified convert_agree by (intro map_cong) blast+
  then show ?thesis by (simp only: safe_substitute_def)
qed

text \<open>
  C5.  For every template and every mapping: the matches of the pattern tile the
  template, and \<open>safe_substitute\<close>, a total function, renders them one by one:
  \<open>$name\<close> and \<open>${name}\<close> become \<open>str\<close> of the value when the mapping has the name
  and stay as written when it has not, \<open>$$\<close> becomes \<open>$\<close>, a \<open>$\<close> that starts nothing
  well-formed stays, any other character is copied.  The same is said by equations
  on the text of the template.  A template none of whose identifiers is in the
  mapping, and without \<open>$$\<close>, comes out unchanged.  \<open>process_input_item\<close> renders
  \<open>None\<close> as the empty string and an item without identifiers as it is; otherwise it
  resolves the item's identifiers with \<open>get_params\<close>, fails only if that fails, and
  substitutes for every identifier the value resolved for it, or else the value
  \<open>cmd_env\<close> has for it, or else leaves it as written; identifiers that are neither
  declared nor supplied raise no error and change no state.
\<close>

theorem substitution_of_identifiers:
  "concat (map seg_text (scan t)) = t
   \<and> safe_substitute m t =
       concat (map (\<lambda>sg. case sg of
                      Lit a \<Rightarrow> [a]
                    | Escaped \<Rightarrow> ''$''
                    | Named x \<Rightarrow> (case m x of Some v \<Rightarrow> py_str v | None \<Rightarrow> CHR ''$'' # x)
                    | Braced x \<Rightarrow> (case m x of Some v \<Rightarrow> py_str v | None \<Rightarrow> ''${'' @ x @ ''}'')
                    | Invalid \<Rightarrow> ''$'') (scan t))
   \<and> (is_identifier n \<and> (r = [] \<or> \<not> idchar (hd r)) \<longrightarrow>
        safe_substitute m (CHR ''$'' # n @ r)
          = (case m n of Some v \<Rightarrow> py_str v | None \<Rightarrow> CHR ''$'' # n) @ safe_substitute m r)
   \<and> (is_identifier n \<longrightarrow>
        safe_substitute m (''${'' @ n @ ''}'' @ r)
          = (case m n of Some v \<Rightarrow> py_str v | None \<Rightarrow> ''${'' @ n @ ''}'') @ safe_substitute m r)
   \<and> (c \<noteq> CHR ''$'' \<longrightarrow> safe_substitute m (c # r) = c # safe_substitute m r)
   \<and> safe_substitute m (''$$'' @ r) = CHR ''$'' # safe_substitute m r
   \<and> (r = [] \<or> (hd r \<noteq> CHR ''$'' \<and> \<not> idstart (hd r)
          \<and> \<not> (\<exists>x r'. is_identifier x \<and> r = ''{'' @ x @ ''}'' @ r')) \<longrightarrow>
        safe_substitute m (CHR ''$'' # r) = CHR ''$'' # safe_substitute m r)
   \<and> ((\<forall>x \<in> set (get_identifiers t). m x = None) \<and> Escaped \<notin> set (scan t) \<longrightarrow>
        safe_substitute m t = t)
   \<and> process_input_item w cfg kw cmd_env item st =
       (if item = PNone then (Inr [], st)
        else if get_identifiers (py_str item) = [] then (Inr (py_str item), st)
        else (case get_params w cfg kw (get_identifiers (py_str item)) st of
                (Inl e, st1) \<Rightarrow> (Inl e, st1)
              | (Inr pv, st1) \<Rightarrow>
                  (Inr (safe_substitute
                          (\<lambda>x. case params_cache st1 x of Some v \<Rightarrow> Some v | None \<Rightarrow> cmd_env x)
                          (py_str item)), st1)))
   \<and> (item \<noteq> PNone \<and> get_identifiers (py_str item) \<noteq> []
        \<and> (\<forall>x \<in> set (get_identifiers (py_str item)). params_cache st x = None
              \<and> map_of (case c_params cfg of Some ps \<Rightarrow> ps | None \<Rightarrow> []) x = None \<and> kw x = None) \<longrightarrow>
        process_input_item w cfg kw cmd_env item st
          = (Inr (safe_substitute cmd_env (py_str item)), st))"
proof (intro conjI impI)
  show "concat (map seg_text (scan t)) = t" by (rule scan_tiles)
next
  have "convert m sg = (case sg of
                      Lit a \<Rightarrow> [a]
                    | Escaped \<Rightarrow> ''$''
                    | Named x \<Rightarrow> (case m x of Some v \<Rightarrow> py_str v | None \<Rightarrow> CHR ''$'' # x)
                    | Braced x \<Rightarrow> (case m x of Some v \<Rightarrow> py_str v | None \<Rightarrow> ''${'' @ x @ ''}'')
                    | Invalid \<Rightarrow> ''$'')" for sg
    by (cases sg) (simp_all split: option.splits)
  then have "convert m = (\<lambda>sg. case sg of
                      Lit a \<Rightarrow> [a]
                    | Escaped \<Rightarrow> ''$''
                    | Named x \<Rightarrow> (case m x of Some v \<Rightarrow> py_str v | None \<Rightarrow> CHR ''$'' # x)
                    | Braced x \<Rightarrow> (case m x of Some v \<Rightarrow> py_str v | None \<Rightarrow> ''${'' @ x @ ''}'')
                    | Invalid \<Rightarrow> ''$'')"
    by (rule ext)
  then show "safe_substitute m t =
       concat (map (\<lambda>sg. case sg of
                      Lit a \<Rightarrow> [a]
                    | Escaped \<Rightarrow> ''$''
                    | Named x \<Rightarrow> (case m x of Some v \<Rightarrow> py_str v | None \<Rightarrow> CHR ''$'' # x)
                    | Braced x \<Rightarrow> (case m x of Some v \<Rightarrow> py_str v | None \<Rightarrow> ''${'' @ x @ ''}'')
                    | Invalid \<Rightarrow> ''$'') (scan t))"
    by (simp only: safe_substitute_def)
next
  assume "is_identifier n \<and> (r = [] \<or> \<not> idchar (hd r))"
  then show "safe_substitute m (CHR ''$'' # n @ r)
        = (case m n of Some v \<Rightarrow> py_str v | None \<Rightarrow> CHR ''$'' # n) @ safe_substitute m r"
    using match_dollar_named [of n r] by (simp add: safe_substitute_def split: option.splits)
next
  assume "is_identifier n"
  then show "safe_substitute m (''${'' @ n @ ''}'' @ r)
        = (case m n of Some v \<Rightarrow> py_str v | None \<Rightarrow> ''${'' @ n @ ''}'') @ safe_substitute m r"
    using match_dollar_braced [of n r] by (simp add: safe_substitute_def split: option.splits)
next
  assume "c \<noteq> CHR ''$''"
  then show "safe_substitute m (c # r) = c # safe_substitute m r"
    by (simp add: safe_substitute_def)
next
  show "safe_substitute m (''$$'' @ r) = CHR ''$'' # safe_substitute m r"
    by (simp add: safe_substitute_def match_dollar_def)
next
  assume "r = [] \<or> (hd r \<noteq> CHR ''$'' \<and> \<not> idstart (hd r)
          \<and> \<not> (\<exists>x r'. is_identifier x \<and> r = ''{'' @ x @ ''}'' @ r'))"
  from match_dollar_invalid [OF this]
  show "safe_substitute m (CHR ''$'' # r) = CHR ''$'' # safe_substitute m r"
    by (simp add: safe_substitute_def)
next
  assume a: "(\<forall>x \<in> set (get_identifiers t). m x = None) \<and> Escaped \<notin> set (scan t)"
  have "convert m s = seg_text s" if "s \<in> set (scan t)" for s
  proof (rule convert_unresolved)
    show "\<forall>n. s = Named n \<or> s = Braced n \<longrightarrow> m n = None"
      using a that scan_names_identified [of s t] by blast
    show "s \<noteq> Escaped" using a that by auto
  qed
  then have "map (convert m) (scan t) = map seg_text (scan t)" by (intro map_cong) simp_all
  then have "concat (map (convert m) (scan t)) = concat (map seg_text (scan t))" by (rule arg_cong)
  then show "safe_substitute m t = t" using scan_tiles [of t] by (simp only: safe_substitute_def)
next
  let ?ids = "get_identifiers (py_str item)"
  show "process_input_item w cfg kw cmd_env item st =
       (if item = PNone then (Inr [], st)
        else if ?ids = [] then (Inr (py_str item), st)
        else (case get_params w cfg kw ?ids st of
                (Inl e, st1) \<Rightarrow> (Inl e, st1)
              | (Inr pv, st1) \<Rightarrow>
                  (Inr (safe_substitute
                          (\<lambda>x. case params_cache st1 x of Some v \<Rightarrow> Some v | None \<Rightarrow> cmd_env x)
                          (py_str item)), st1)))"
  proof (cases "item = PNone \<or> ?ids = []")
    case True
    then show ?thesis by (auto simp: process_input_item_def)
  next
    case False
    obtain r1 st1 where g: "get_params w cfg kw ?ids st = (r1, st1)"
      by (cases "get_params w cfg kw ?ids st")
    show ?thesis
    proof (cases r1)
      case (Inl e)
      then show ?thesis using False g by (simp add: process_input_item_def)
    next
      case (Inr pv)
      have "safe_substitute (cmd_env ++ pv) (py_str item)
          = safe_substitute (\<lambda>x. case params_cache st1 x of Some v \<Rightarrow> Some v | None \<Rightarrow> cmd_env x)
              (py_str item)"
      proof (rule safe_substitute_agree)
        fix x assume "x \<in> set ?ids"
        then have "pv x = params_cache st1 x"
          using get_params_values [of w cfg kw ?ids st pv st1 x] g Inr by simp
        then show "(cmd_env ++ pv) x = (case params_cache st1 x of Some v \<Rightarrow> Some v | None \<Rightarrow> cmd_env x)"
          by (simp add: map_add_def split: option.splits)
      qed
      then show ?thesis using False g Inr by (simp add: process_input_item_def)
    qed
  qed
next
  assume a: "item \<noteq> PNone \<and> get_identifiers (py_str item) \<noteq> []
        \<and> (\<forall>x \<in> set (get_identifiers (py_str item)). params_cache st x = None
              \<and> map_of (case c_params cfg of Some ps \<Rightarrow> ps | None \<Rightarrow> []) x = None \<and> kw x = None)"
  then have "get_params w cfg kw (get_identifiers (py_str item)) st = (Inr Map.empty, st)"
    using get_params_loop_unknown [of "get_identifiers (py_str item)" st cfg kw w Map.empty]
    by (simp add: get_params_def)
  then show "process_input_item w cfg kw cmd_env item st
          = (Inr (safe_substitute cmd_env (py_str item)), st)"
    using a by (simp add: process_input_item_def)
qed

theorem substitution_of_identifiers_witness:
  "is_identifier ''greeting'' \<and> is_identifier ''who''
   \<and> safe_substitute [''greeting'' \<mapsto> PStr ''hi''] ''$greeting, ${who}!'' = ''hi, ${who}!''
   \<and> safe_substitute [''who'' \<mapsto> PStr ''Ada''] ''${who}s'' = ''Adas''
   \<and> safe_substitute [''who'' \<mapsto> PStr ''Ada''] ''$ 5 for ${who}'' = ''$ 5 for Ada''
   \<and> safe_substitute [''who'' \<mapsto> PStr ''Ada''] ''cost: $ 5 for ${who}'' = ''cost: $ 5 for Ada''
   \<and> safe_substitute Map.empty ''cost: $ 5 for ${who}'' = ''cost: $ 5 for ${who}''
   \<and> fst (process_input_item (ex_world [] [] 0) ex_echo [''greeting'' \<mapsto> PStr ''hi'']
             [''cwd'' \<mapsto> PStr ''/work/job''] (PStr ''say $greeting in $cwd, not $other'') ex_session)
       = Inr ''say hi in /work/job, not $other''
   \<and> process_input_item (ex_world [] [] 0) ex_echo Map.empty
             [''cwd'' \<mapsto> PStr ''/work/job''] (PStr ''ls $cwd/$other'') ex_session
       = (Inr ''ls /work/job/$other'', ex_session)"
proof -
  let ?g = "[''greeting'' \<mapsto> PStr ''hi'']"
  let ?a = "[''who'' \<mapsto> PStr ''Ada'']"
  let ?env = "[''cwd'' \<mapsto> PStr ''/work/job'']"
  note ev = safe_substitute_def match_dollar_def idstart_def idchar_def in_range_def
  have i: "is_identifier ''greeting''" "is_identifier ''who''"
    by (simp_all add: is_identifier_def idstart_def idchar_def in_range_def)
  have e: "\<not> idchar (hd '', ${who}!'')" by (simp add: idchar_def idstart_def in_range_def)
  have 1: "safe_substitute ?g ''$greeting, ${who}!'' = ''hi, ${who}!''"
    using substitution_of_identifiers [where m = ?g and n = "''greeting''" and r = "'', ${who}!''",
        THEN conjunct2, THEN conjunct2, THEN conjunct1] i e
    by (simp add: ev)
  have 2: "safe_substitute ?a ''${who}s'' = ''Adas''"
    using substitution_of_identifiers [where m = ?a and n = "''who''" and r = "''s''",
        THEN conjunct2, THEN conjunct2, THEN conjunct2, THEN conjunct1] i
    by (simp add: ev)
  have v: "hd '' 5 for ${who}'' \<noteq> CHR ''$'' \<and> \<not> idstart (hd '' 5 for ${who}'')
          \<and> \<not> (\<exists>x r'. is_identifier x \<and> '' 5 for ${who}'' = ''{'' @ x @ ''}'' @ r')"
    by (simp add: idstart_def in_range_def)
  have 3: "safe_substitute ?a ''$ 5 for ${who}'' = ''$ 5 for Ada''"
    using substitution_of_identifiers [where m = ?a and r = "'' 5 for ${who}''",
        THEN conjunct2, THEN conjunct2, THEN conjunct2, THEN conjunct2, THEN conjunct2,
        THEN conjunct2, THEN conjunct1] v
    by (simp add: ev)
  have 4: "safe_substitute ?a ''cost: $ 5 for ${who}'' = ''cost: $ 5 for Ada''"
    using substitution_of_identifiers [where m = ?a and t = "''cost: $ 5 for ${who}''",
        THEN conjunct2, THEN conjunct1]
    by (simp add: match_dollar_def idstart_def idchar_def in_range_def)
  have g: "\<forall>x \<in> set (get_identifiers ''cost: $ 5 for ${who}''). (Map.empty :: string \<rightharpoonup> pyval) x = None"
    "Escaped \<notin> set (scan ''cost: $ 5 for ${who}'')"
    by (simp_all add: get_identifiers_def match_dollar_def idstart_def idchar_def in_range_def)
  have 5: "safe_substitute Map.empty ''cost: $ 5 for ${who}'' = ''cost: $ 5 for ${who}''"
    using substitution_of_identifiers [where m = Map.empty and t = "''cost: $ 5 for ${who}''",
        THEN conjunct2, THEN conjunct2, THEN conjunct2, THEN conjunct2, THEN conjunct2,
        THEN conjunct2, THEN conjunct2, THEN conjunct1] g
    by blast
  have ids: "get_identifiers ''say $greeting in $cwd, not $other'' = [''greeting'', ''cwd'', ''other'']"
    by (simp add: get_identifiers_def match_dollar_def idstart_def idchar_def in_range_def)
  have gp: "get_params (ex_world [] [] 0) ex_echo ?g [''greeting'', ''cwd'', ''other''] ex_session
          = (Inr [''greeting'' \<mapsto> PStr ''hi''],
             ex_session\<lparr>params_cache := [''greeting'' \<mapsto> PStr ''hi'']\<rparr>)"
    by (simp add: get_params_def get_param_def Let_def ex_echo_def ex_session_def init_session_def)
  have sb: "safe_substitute
              (\<lambda>x. case [''greeting'' \<mapsto> PStr ''hi''] x of Some v \<Rightarrow> Some v | None \<Rightarrow> ?env x)
              ''say $greeting in $cwd, not $other'' = ''say hi in /work/job, not $other''"
    by (simp add: ev)
  have 6: "fst (process_input_item (ex_world [] [] 0) ex_echo ?g ?env
                  (PStr ''say $greeting in $cwd, not $other'') ex_session)
         = Inr ''say hi in /work/job, not $other''"
    using substitution_of_identifiers [where w = "ex_world [] [] 0" and cfg = ex_echo and kw = ?g
        and cmd_env = ?env and item = "PStr ''say $greeting in $cwd, not $other''" and st = ex_session,
        THEN conjunct2, THEN conjunct2, THEN conjunct2, THEN conjunct2, THEN conjunct2,
        THEN conjunct2, THEN conjunct2, THEN conjunct2, THEN conjunct1] ids gp sb
    by simp
  have u: "get_identifiers ''ls $cwd/$other'' = [''cwd'', ''other'']"
    by (simp add: get_identifiers_def match_dollar_def idstart_def idchar_def in_range_def)
  have 7: "process_input_item (ex_world [] [] 0) ex_echo Map.empty ?env (PStr ''ls $cwd/$other'') ex_session
         = (Inr (safe_substitute ?env ''ls $cwd/$other''), ex_session)"
    using substitution_of_identifiers [where w = "ex_world [] [] 0" and cfg = ex_echo and kw = Map.empty
        and cmd_env = ?env and item = "PStr ''ls $cwd/$other''" and st = ex_session,
        THEN conjunct2, THEN conjunct2, THEN conjunct2, THEN conjunct2, THEN conjunct2,
        THEN conjunct2, THEN conjunct2, THEN conjunct2, THEN conjunct2] u
    by (simp add: ex_echo_def ex_session_def init_session_def)
  have 8: "safe_substitute ?env ''ls $cwd/$other'' = ''ls /work/job/$other''"
    by (simp add: ev)
  show ?thesis using i 1 2 3 4 5 6 7 8 by simp
qed

section \<open>Paths below the job's directory\<close>














section \<open>The job identifier through a run\<close>











section \<open>Removing the job's directory\<close>










end
